theory Spec2Isabelle
  imports Complex_Main "HOL-Library.AList" "HOL-Library.Option_ord"
begin

section \<open>The AQI calculator of Models/models.py\<close>

text \<open>
  The class \<open>AQICalculator\<close> is a collection of pure functions over numbers.
  Conventions of the embedding:
  \<^item> a Python float is a \<open>real option\<close>: \<open>None\<close> is NaN (the "missing" value of the
    code), \<open>Some x\<close> is the number \<open>x\<close>. Every arithmetic operation on floats is the
    exact operation followed by \<open>fl\<close>, the rounding of a real to the nearest binary64
    number, ties to even, with gradual underflow. The two zeros of binary64 are the one
    number 0: the code compares and rounds them alike. The two infinities are outside
    the model: no operation of the code overflows on finite inputs, and as inputs
    \<open>+inf\<close> behaves in every branch as a number above all ranges and \<open>-inf\<close> as a
    negative number;
  \<^item> a Python int is an \<open>int\<close>; a result that is either \<open>np.nan\<close> or an int is an
    \<open>int option\<close>;
  \<^item> a breakpoint table is a list of 4-tuples of ints, as the class attributes are;
  \<^item> an exception is the \<open>Inl\<close> of a sum type;
  \<^item> the dict \<open>aqis\<close> is an association list in insertion order, which is the order in
    which Python iterates over a dict.
  The branch \<open>isinstance(concentration, np.ndarray)\<close> of \<open>calculate_aqi\<close> only turns a
  one-element array into its scalar and has no counterpart here.
\<close>

subsection \<open>Values and errors\<close>

type_synonym pyfloat = "real option"

type_synonym breakpoint = "int \<times> int \<times> int \<times> int"

datatype py_error = IndexError | ZeroDivisionError | ValueError

definition bind_err :: "py_error + 'a \<Rightarrow> ('a \<Rightarrow> py_error + 'b) \<Rightarrow> py_error + 'b" where
  "bind_err r f = (case r of Inl e \<Rightarrow> Inl e | Inr v \<Rightarrow> f v)"

text \<open>
  Python's \<open>round\<close> with one argument, on a float: the nearest integer, a tie going to
  the even neighbour.
\<close>

definition py_round :: "real \<Rightarrow> int" where
  "py_round x =
     (let f = \<lfloor>x\<rfloor>; d = x - of_int f
      in if d < 1 / 2 then f
         else if 1 / 2 < d then f + 1
         else if even f then f else f + 1)"

subsection \<open>Binary64 rounding\<close>

text \<open>
  The binary exponent of a real: the \<open>e\<close> with \<open>2^e \<le> |x| < 2^(e+1)\<close>, found by
  halving or doubling, and never below -1022, the exponent of the subnormal numbers.
  (Above 1023 the search stops: such numbers are beyond the largest double.)
\<close>

fun exp_up :: "nat \<Rightarrow> real \<Rightarrow> int" where
  "exp_up 0 x = 0"
| "exp_up (Suc k) x = (if x < 2 then 0 else exp_up k (x / 2) + 1)"

fun exp_down :: "nat \<Rightarrow> real \<Rightarrow> int" where
  "exp_down 0 x = 0"
| "exp_down (Suc k) x = (if 1 \<le> x then 0 else exp_down k (x * 2) - 1)"

definition exponent :: "real \<Rightarrow> int" where
  "exponent x = (if 1 \<le> \<bar>x\<bar> then exp_up 1023 \<bar>x\<bar> else exp_down 1022 \<bar>x\<bar>)"

definition pow2 :: "int \<Rightarrow> real" where
  "pow2 e = power_int 2 e"

text \<open>
  The spacing of the doubles around \<open>x\<close> (53 significant bits), and the rounding of a
  real to the nearest double: the nearest multiple of that spacing, a tie going to the
  even multiple.
\<close>

definition ulp :: "real \<Rightarrow> real" where
  "ulp x = pow2 (exponent x - 52)"

definition fl :: "real \<Rightarrow> real" where
  "fl x = of_int (py_round (x / ulp x)) * ulp x"

subsection \<open>The breakpoint tables\<close>

definition NO2_BREAKPOINTS :: "breakpoint list" where
  "NO2_BREAKPOINTS =
     [(0, 53, 0, 50),
      (54, 100, 51, 100),
      (101, 360, 101, 150),
      (361, 649, 151, 200),
      (650, 1249, 201, 300),
      (1250, 2049, 301, 500)]"

definition O3_BREAKPOINTS :: "breakpoint list" where
  "O3_BREAKPOINTS =
     [(0, 54, 0, 50),
      (55, 70, 51, 100),
      (71, 85, 101, 150),
      (86, 105, 151, 200),
      (106, 200, 201, 300)]"

definition HCHO_BREAKPOINTS :: "breakpoint list" where
  "HCHO_BREAKPOINTS =
     [(0, 10, 0, 50),
      (11, 30, 51, 100),
      (31, 50, 101, 150),
      (51, 80, 151, 200),
      (81, 120, 201, 300)]"

subsection \<open>calculate_aqi\<close>

text \<open>
  The \<open>for\<close> loop of \<open>calculate_aqi\<close>. \<open>None\<close>: the loop ran to its end without
  returning. The range test compares the float with the two ints exactly. The quotient
  \<open>(aqi_high - aqi_low) / (bp_high - bp_low)\<close> is a true division of two ints: it raises
  when the divisor is zero and is otherwise the double nearest to the exact quotient.
  In \<open>concentration - bp_low\<close> and \<open>... + aqi_low\<close> the int is first converted to a
  double; the difference, the product and the sum are each rounded.
\<close>

fun calculate_aqi_loop :: "real \<Rightarrow> breakpoint list \<Rightarrow> (py_error + int) option" where
  "calculate_aqi_loop concentration [] = None"
| "calculate_aqi_loop concentration ((bp_low, bp_high, aqi_low, aqi_high) # rest) =
     (if of_int bp_low \<le> concentration \<and> concentration \<le> of_int bp_high then
        (if bp_high - bp_low = 0 then Some (Inl ZeroDivisionError)
         else Some (Inr (py_round
           (fl (fl (fl (of_int (aqi_high - aqi_low) / of_int (bp_high - bp_low))
                      * fl (concentration - fl (of_int bp_low)))
                  + fl (of_int aqi_low))))))
      else calculate_aqi_loop concentration rest)"

definition calculate_aqi :: "pyfloat \<Rightarrow> breakpoint list \<Rightarrow> py_error + int option" where
  "calculate_aqi concentration breakpoints =
     (case concentration of
        None \<Rightarrow> Inr None
      | Some c \<Rightarrow>
          if c < 0 then Inr None
          else (case calculate_aqi_loop c breakpoints of
                  Some (Inl e) \<Rightarrow> Inl e
                | Some (Inr aqi) \<Rightarrow> Inr (Some aqi)
                | None \<Rightarrow>
                    (case breakpoints of
                       [] \<Rightarrow> Inl IndexError
                     | _ # _ \<Rightarrow> Inr (Some (snd (snd (snd (last breakpoints))))))))"

subsection \<open>Unit conversion and the per-pollutant indices\<close>

definition no2_column_to_ppb :: "pyfloat \<Rightarrow> pyfloat" where
  "no2_column_to_ppb column_density =
     (case column_density of
        None \<Rightarrow> None
      | Some x \<Rightarrow> Some (fl (x / 2000000000000000)))"

definition hcho_column_to_ppb :: "pyfloat \<Rightarrow> pyfloat" where
  "hcho_column_to_ppb column_density =
     (case column_density of
        None \<Rightarrow> None
      | Some x \<Rightarrow> Some (fl (x / 10000000000000000)))"

definition get_no2_aqi :: "pyfloat \<Rightarrow> py_error + int option" where
  "get_no2_aqi no2_column = calculate_aqi (no2_column_to_ppb no2_column) NO2_BREAKPOINTS"

definition get_o3_aqi :: "pyfloat \<Rightarrow> py_error + int option" where
  "get_o3_aqi o3_ppb = calculate_aqi o3_ppb O3_BREAKPOINTS"

definition get_hcho_aqi :: "pyfloat \<Rightarrow> py_error + int option" where
  "get_hcho_aqi hcho_column = calculate_aqi (hcho_column_to_ppb hcho_column) HCHO_BREAKPOINTS"

subsection \<open>get_combined_aqi\<close>

text \<open>
  Python's \<open>max(iterable, key=f)\<close>: the first element is the candidate, and a later
  element replaces it only when its key is strictly greater, so among equal maxima the
  earliest wins. On an empty iterable \<open>max\<close> raises ValueError.
\<close>

fun max_loop :: "('a \<Rightarrow> 'b::linorder) \<Rightarrow> 'a \<Rightarrow> 'a list \<Rightarrow> 'a" where
  "max_loop key best [] = best"
| "max_loop key best (x # xs) = max_loop key (if key best < key x then x else best) xs"

definition py_max :: "('a \<Rightarrow> 'b::linorder) \<Rightarrow> 'a list \<Rightarrow> py_error + 'a" where
  "py_max key xs = (case xs of [] \<Rightarrow> Inl ValueError | x # rest \<Rightarrow> Inr (max_loop key x rest))"

text \<open>
  \<open>aqis[k] = v\<close> is \<open>AList.update k v aqis\<close>: a new key goes to the end. \<open>aqis.get\<close>
  is \<open>map_of aqis\<close>; it is only ever applied to keys of \<open>aqis\<close>, so its \<open>None\<close> never
  takes part in a comparison.
\<close>

definition get_combined_aqi ::
  "pyfloat \<Rightarrow> pyfloat \<Rightarrow> pyfloat \<Rightarrow> py_error + (int option \<times> string option)" where
  "get_combined_aqi no2_col hcho_col o3_ppb =
     bind_err (get_no2_aqi no2_col) (\<lambda>no2_aqi.
       let aqis = (case no2_aqi of None \<Rightarrow> [] | Some v \<Rightarrow> AList.update ''NO2'' v [])
       in bind_err (get_hcho_aqi hcho_col) (\<lambda>hcho_aqi.
         let aqis = (case hcho_aqi of None \<Rightarrow> aqis | Some v \<Rightarrow> AList.update ''HCHO'' v aqis)
         in bind_err (get_o3_aqi o3_ppb) (\<lambda>o3_aqi.
           let aqis = (case o3_aqi of None \<Rightarrow> aqis | Some v \<Rightarrow> AList.update ''O3'' v aqis)
           in if length aqis = 0 then Inr (None, None)
              else bind_err (py_max (map_of aqis) (map fst aqis)) (\<lambda>dominant.
                     bind_err (py_max id (map snd aqis)) (\<lambda>overall.
                       Inr (Some overall, Some dominant))))))"

subsection \<open>aqi_to_category\<close>

text \<open>
  The argument is any number or NaN; the callers pass the int returned by
  \<open>get_combined_aqi\<close>, which embeds by \<open>of_int\<close>.
\<close>

definition aqi_to_category :: "pyfloat \<Rightarrow> int option \<times> string \<times> string" where
  "aqi_to_category aqi =
     (case aqi of
        None \<Rightarrow> (None, ''Unknown'', ''No data available'')
      | Some a \<Rightarrow>
          if a \<le> 50 then
            (Some 0, ''Good'',
             ''Air quality is satisfactory, and air pollution poses little or no risk.'')
          else if a \<le> 100 then
            (Some 1, ''Moderate'',
             ''Air quality is acceptable. However, there may be a risk for some people.'')
          else if a \<le> 150 then
            (Some 2, ''Unhealthy for Sensitive Groups'',
             ''Members of sensitive groups may experience health effects.'')
          else if a \<le> 200 then
            (Some 3, ''Unhealthy'',
             ''Some members of the general public may experience health effects.'')
          else if a \<le> 300 then
            (Some 4, ''Very Unhealthy'',
             ''Health alert: The risk of health effects is increased for everyone.'')
          else
            (Some 5, ''Hazardous'',
             ''Health warning of emergency conditions: everyone is more likely to be affected.''))"

subsection \<open>Vocabulary of the specification\<close>

text \<open>The four components of a table entry, under the names the specification uses.\<close>

definition concentration_low :: "breakpoint \<Rightarrow> int" where
  "concentration_low e = fst e"

definition concentration_high :: "breakpoint \<Rightarrow> int" where
  "concentration_high e = fst (snd e)"

definition index_low :: "breakpoint \<Rightarrow> int" where
  "index_low e = fst (snd (snd e))"

definition index_high :: "breakpoint \<Rightarrow> int" where
  "index_high e = snd (snd (snd e))"

text \<open>A concentration lies within the inclusive range of an entry.\<close>

definition in_range :: "real \<Rightarrow> breakpoint \<Rightarrow> bool" where
  "in_range c e \<longleftrightarrow> of_int (concentration_low e) \<le> c \<and> c \<le> of_int (concentration_high e)"

definition in_some_range :: "real \<Rightarrow> breakpoint list \<Rightarrow> bool" where
  "in_some_range c table = list_ex (in_range c) table"

text \<open>
  The interpolation formula as the specification writes it:
  \<open>((index_high - index_low) / (concentration_high - concentration_low))
    * (c - concentration_low) + index_low\<close>, before rounding to an integer, in exact
  arithmetic.
\<close>

definition interpolation :: "breakpoint \<Rightarrow> real \<Rightarrow> real" where
  "interpolation e c =
     (of_int (index_high e - index_low e) / of_int (concentration_high e - concentration_low e))
       * (c - of_int (concentration_low e)) + of_int (index_low e)"

text \<open>The same formula as the code evaluates it, every operation rounded to a double.\<close>

definition float_interpolation :: "breakpoint \<Rightarrow> real \<Rightarrow> real" where
  "float_interpolation e c =
     fl (fl (fl (of_int (index_high e - index_low e)
                   / of_int (concentration_high e - concentration_low e))
               * fl (c - fl (of_int (concentration_low e))))
           + fl (of_int (index_low e)))"

definition slope :: "breakpoint \<Rightarrow> real" where
  "slope e = of_int (index_high e - index_low e) / of_int (concentration_high e - concentration_low e)"

text \<open>The three tables of the class.\<close>

definition pollutant_tables :: "breakpoint list list" where
  "pollutant_tables = [NO2_BREAKPOINTS, HCHO_BREAKPOINTS, O3_BREAKPOINTS]"

text \<open>
  What the tables have in common and the loop relies on: every entry has a proper,
  non-negative concentration range and index range, and a later entry starts above the
  end of every earlier one in concentration, and not below it in index.
\<close>

definition entry_ok :: "breakpoint \<Rightarrow> bool" where
  "entry_ok e \<longleftrightarrow>
     0 \<le> concentration_low e \<and> concentration_low e < concentration_high e \<and>
     0 \<le> index_low e \<and> index_low e < index_high e"

definition entry_before :: "breakpoint \<Rightarrow> breakpoint \<Rightarrow> bool" where
  "entry_before e e' \<longleftrightarrow>
     concentration_high e < concentration_low e' \<and> index_high e \<le> index_low e'"

text \<open>
  The sizes that keep the rounding errors of the formula small: bounds, indices and
  slope no larger than the largest of the three tables.
\<close>

definition entry_small :: "breakpoint \<Rightarrow> bool" where
  "entry_small e \<longleftrightarrow>
     concentration_high e \<le> 2049 \<and> index_high e \<le> 500 \<and>
     index_high e - index_low e \<le> 5 * (concentration_high e - concentration_low e)"

definition table_ok :: "breakpoint list \<Rightarrow> bool" where
  "table_ok table \<longleftrightarrow>
     table \<noteq> [] \<and> list_all entry_ok table \<and> list_all entry_small table \<and>
     sorted_wrt entry_before table"

text \<open>
  Contiguity on the integers: the first entry starts at 0 and every entry starts one
  above the end of its predecessor.
\<close>

definition contiguous_int :: "breakpoint list \<Rightarrow> bool" where
  "contiguous_int table \<longleftrightarrow>
     table \<noteq> [] \<and> concentration_low (hd table) = 0 \<and>
     successively (\<lambda>e e'. concentration_low e' = concentration_high e + 1) table"

text \<open>
  Coverage as the specification words it: every real concentration from 0 up to the
  upper bound of the last entry falls inside the range of some entry.
\<close>

definition covers_reals :: "breakpoint list \<Rightarrow> bool" where
  "covers_reals table \<longleftrightarrow>
     (\<forall>c::real. 0 \<le> c \<and> c \<le> of_int (concentration_high (last table))
        \<longrightarrow> in_some_range c table)"

text \<open>
  A sub-index \<open>x\<close> is at least as bad as \<open>y\<close>: \<open>x\<close> is valid, and \<open>y\<close> is missing or
  not greater.
\<close>

definition at_least :: "int option \<Rightarrow> int option \<Rightarrow> bool" where
  "at_least x y = (case x of None \<Rightarrow> False | Some v \<Rightarrow> (case y of None \<Rightarrow> True | Some w \<Rightarrow> w \<le> v))"

section \<open>Auxiliary facts\<close>

subsection \<open>Rounding to an integer\<close>

lemma py_round_near: "\<bar>x - of_int (py_round x)\<bar> \<le> 1 / 2"
  unfolding py_round_def Let_def by (auto; linarith)

lemma py_round_of_int: "py_round (of_int n) = n"
  by (simp add: py_round_def)

lemma py_round_mono:
  assumes "x \<le> y" shows "py_round x \<le> py_round y"
proof (rule ccontr)
  assume "\<not> py_round x \<le> py_round y"
  then have gt: "py_round y + 1 \<le> py_round x" by simp
  then have gtr: "(of_int (py_round y) :: real) + 1 \<le> of_int (py_round x)"
    by (metis of_int_1 of_int_add of_int_le_iff)
  have nx: "\<bar>x - of_int (py_round x)\<bar> \<le> 1 / 2" by (rule py_round_near)
  have ny: "\<bar>y - of_int (py_round y)\<bar> \<le> 1 / 2" by (rule py_round_near)
  from assms gtr nx ny have "x = y" by linarith
  with gt show False by simp
qed

lemma py_round_nonneg: "0 \<le> x \<Longrightarrow> 0 \<le> py_round x"
  using py_round_mono [of 0 x] py_round_of_int [of 0] by simp

lemma py_round_close:
  assumes "\<bar>x - of_int n\<bar> < 1 / 2" shows "py_round x = n"
proof -
  have "\<bar>x - of_int (py_round x)\<bar> \<le> 1 / 2" by (rule py_round_near)
  with assms have "\<bar>(of_int (py_round x) :: real) - of_int n\<bar> < 1" by linarith
  then have "\<bar>(of_int (py_round x - n) :: real)\<bar> < 1" by simp
  then have "\<bar>py_round x - n\<bar> < 1" by linarith
  then show ?thesis by simp
qed

lemma py_round_small:
  assumes "\<bar>x\<bar> \<le> 1 / 2" shows "py_round x = 0"
proof (cases "0 \<le> x")
  case True
  with assms have "\<lfloor>x\<rfloor> = 0" by (simp add: floor_eq_iff)
  with assms True show ?thesis by (simp add: py_round_def Let_def)
next
  case False
  with assms have "\<lfloor>x\<rfloor> = -1" by (simp add: floor_eq_iff)
  with assms False show ?thesis by (simp add: py_round_def Let_def)
qed

subsection \<open>Powers of two\<close>

lemma pow2_pos: "0 < pow2 e"
  by (simp add: pow2_def zero_less_power_int)

lemma pow2_0: "pow2 0 = 1"
  by (simp add: pow2_def)

lemma pow2_1: "pow2 1 = 2"
  by (simp add: pow2_def)

lemma pow2_Suc: "pow2 (e + 1) = 2 * pow2 e"
  by (simp add: pow2_def power_int_add_1')

lemma pow2_pred: "pow2 (e - 1) = pow2 e / 2"
  using pow2_Suc [of "e - 1"] by simp

lemma pow2_mono: "a \<le> b \<Longrightarrow> pow2 a \<le> pow2 b"
  unfolding pow2_def by (rule power_int_increasing) simp_all

lemma pow2_strict_mono: "a < b \<Longrightarrow> pow2 a < pow2 b"
  unfolding pow2_def by (rule power_int_strict_increasing) simp_all

lemma pow2_less_imp: "pow2 a < pow2 b \<Longrightarrow> a < b"
  using pow2_mono [of b a] by (cases "a < b") simp_all

lemma pow2_add: "pow2 (a + b) = pow2 a * pow2 b"
  by (simp add: pow2_def power_int_add)

lemma pow2_diff: "pow2 a / pow2 b = pow2 (a - b)"
  by (simp add: pow2_def power_int_diff)

lemma pow2_nat: "pow2 (int n) = 2 ^ n"
  by (simp add: pow2_def)

subsection \<open>The binary exponent\<close>

lemma exp_up_lower:
  "1 \<le> x \<Longrightarrow> 0 \<le> exp_up n x \<and> exp_up n x \<le> int n \<and> pow2 (exp_up n x) \<le> x"
proof (induction n arbitrary: x)
  case 0
  then show ?case by (simp add: pow2_0 pow2_1)
next
  case (Suc n)
  show ?case
  proof (cases "x < 2")
    case True
    with Suc.prems show ?thesis by (simp add: pow2_0 pow2_1)
  next
    case False
    then have "1 \<le> x / 2" by simp
    from Suc.IH [OF this] have "0 \<le> exp_up n (x / 2)" "exp_up n (x / 2) \<le> int n"
      "pow2 (exp_up n (x / 2)) \<le> x / 2" by simp_all
    with False show ?thesis by (simp add: pow2_Suc)
  qed
qed

lemma exp_up_upper:
  "1 \<le> x \<Longrightarrow> x < pow2 (int n + 1) \<Longrightarrow> x < pow2 (exp_up n x + 1)"
proof (induction n arbitrary: x)
  case 0
  then show ?case by (simp add: pow2_0 pow2_1)
next
  case (Suc n)
  show ?case
  proof (cases "x < 2")
    case True
    then show ?thesis by (simp add: pow2_1)
  next
    case False
    then have a: "1 \<le> x / 2" by simp
    from Suc.prems(2) have "x < 2 * pow2 (int n + 1)"
      using pow2_Suc [of "int n + 1"] by (simp add: add.commute)
    then have b: "x / 2 < pow2 (int n + 1)" by simp
    from Suc.IH [OF a b] have "x < 2 * pow2 (exp_up n (x / 2) + 1)" by simp
    with False show ?thesis using pow2_Suc [of "exp_up n (x / 2) + 1"] by simp
  qed
qed

lemma exp_down_bounds:
  "0 \<le> x \<Longrightarrow> x < 2 \<Longrightarrow>
     - int n \<le> exp_down n x \<and> exp_down n x \<le> 0 \<and> x < pow2 (exp_down n x + 1)
     \<and> (pow2 (exp_down n x) \<le> x \<or> exp_down n x = - int n)"
proof (induction n arbitrary: x)
  case 0
  then show ?case by (simp add: pow2_0 pow2_1)
next
  case (Suc n)
  show ?case
  proof (cases "1 \<le> x")
    case True
    with Suc.prems show ?thesis by (simp add: pow2_0 pow2_1)
  next
    case False
    with Suc.prems have "0 \<le> x * 2" "x * 2 < 2" by simp_all
    from Suc.IH [OF this] have ih: "- int n \<le> exp_down n (x * 2)" "exp_down n (x * 2) \<le> 0"
      "x * 2 < pow2 (exp_down n (x * 2) + 1)"
      "pow2 (exp_down n (x * 2)) \<le> x * 2 \<or> exp_down n (x * 2) = - int n"
      by simp_all
    from ih(3) have u: "x < pow2 (exp_down n (x * 2))" by (simp add: pow2_Suc)
    from ih(4) have l: "pow2 (exp_down n (x * 2) - 1) \<le> x \<or> exp_down n (x * 2) = - int n"
      by (auto simp: pow2_pred)
    from False ih(1,2) u l show ?thesis by auto
  qed
qed

lemma exponent_range: "- 1022 \<le> exponent x \<and> exponent x \<le> 1023"
proof (cases "1 \<le> \<bar>x\<bar>")
  case True
  with exp_up_lower [of "\<bar>x\<bar>" 1023] show ?thesis by (simp add: exponent_def)
next
  case False
  with exp_down_bounds [of "\<bar>x\<bar>" 1022] show ?thesis by (simp add: exponent_def)
qed

lemma exponent_lower: "pow2 (exponent x) \<le> \<bar>x\<bar> \<or> exponent x = - 1022"
proof (cases "1 \<le> \<bar>x\<bar>")
  case True
  with exp_up_lower [of "\<bar>x\<bar>" 1023] show ?thesis by (simp add: exponent_def)
next
  case False
  with exp_down_bounds [of "\<bar>x\<bar>" 1022] show ?thesis by (simp add: exponent_def)
qed

lemma exponent_upper:
  assumes "\<bar>x\<bar> < pow2 1024" shows "\<bar>x\<bar> < pow2 (exponent x + 1)"
proof (cases "1 \<le> \<bar>x\<bar>")
  case True
  from assms have "\<bar>x\<bar> < pow2 (int 1023 + 1)" by simp
  with True exp_up_upper [of "\<bar>x\<bar>" 1023] show ?thesis by (simp add: exponent_def)
next
  case False
  with exp_down_bounds [of "\<bar>x\<bar>" 1022] show ?thesis by (simp add: exponent_def)
qed

lemma exponent_le:
  assumes "\<bar>x\<bar> < pow2 (k + 1)" "- 1022 \<le> k" shows "exponent x \<le> k"
proof -
  from exponent_lower [of x] show ?thesis
  proof
    assume "pow2 (exponent x) \<le> \<bar>x\<bar>"
    with assms(1) have "pow2 (exponent x) < pow2 (k + 1)" by simp
    then have "exponent x < k + 1" by (rule pow2_less_imp)
    then show ?thesis by simp
  next
    assume "exponent x = - 1022"
    with assms(2) show ?thesis by simp
  qed
qed

lemma exponent_eq:
  assumes "pow2 k \<le> \<bar>x\<bar>" "\<bar>x\<bar> < pow2 (k + 1)" "- 1022 \<le> k" "k \<le> 1023"
  shows "exponent x = k"
proof -
  from assms(2,3) have le: "exponent x \<le> k" by (rule exponent_le)
  from assms(4) have "k + 1 \<le> 1024" by simp
  then have "pow2 (k + 1) \<le> pow2 1024" by (rule pow2_mono)
  with assms(2) have "\<bar>x\<bar> < pow2 1024" by (rule less_le_trans)
  then have "\<bar>x\<bar> < pow2 (exponent x + 1)" by (rule exponent_upper)
  with assms(1) have "pow2 k < pow2 (exponent x + 1)" by simp
  then have "k < exponent x + 1" by (rule pow2_less_imp)
  with le show ?thesis by simp
qed

lemma exponent_subnormal:
  assumes "\<bar>x\<bar> < pow2 (- 1022)" shows "exponent x = - 1022"
proof -
  from assms have "exponent x \<le> - 1023 \<or> exponent x = - 1022"
    using exponent_lower [of x] pow2_less_imp [of "exponent x" "- 1022"] by auto
  with exponent_range [of x] show ?thesis by auto
qed

lemma exponent_minus: "exponent (- x) = exponent x"
  by (simp add: exponent_def)

subsection \<open>Rounding to a double\<close>

lemma ulp_pos: "0 < ulp x"
  by (simp add: ulp_def pow2_pos)

lemma fl_zero: "fl 0 = 0"
  by (simp add: fl_def py_round_def)

lemma fl_error: "\<bar>fl x - x\<bar> \<le> ulp x / 2"
proof -
  have "\<bar>x / ulp x - of_int (py_round (x / ulp x))\<bar> \<le> 1 / 2" by (rule py_round_near)
  then have "\<bar>x / ulp x - of_int (py_round (x / ulp x))\<bar> * ulp x \<le> 1 / 2 * ulp x"
    using ulp_pos [of x] by (simp add: mult_right_mono)
  moreover have "\<bar>x / ulp x - of_int (py_round (x / ulp x))\<bar> * ulp x = \<bar>fl x - x\<bar>"
  proof -
    have "\<bar>x / ulp x - of_int (py_round (x / ulp x))\<bar> * ulp x
        = \<bar>(x / ulp x - of_int (py_round (x / ulp x))) * ulp x\<bar>"
      using ulp_pos [of x] by (simp add: abs_mult)
    also have "(x / ulp x - of_int (py_round (x / ulp x))) * ulp x = x - fl x"
      using ulp_pos [of x] by (simp add: fl_def algebra_simps)
    finally show ?thesis by (simp add: abs_minus_commute)
  qed
  ultimately show ?thesis by simp
qed

lemma fl_error_bound:
  assumes "\<bar>x\<bar> < pow2 (k + 1)" "- 1022 \<le> k"
  shows "\<bar>fl x - x\<bar> \<le> pow2 (k - 53)"
proof -
  from assms have "exponent x \<le> k" by (rule exponent_le)
  then have "exponent x - 52 \<le> k - 52" by simp
  then have "ulp x \<le> pow2 (k - 52)" unfolding ulp_def by (rule pow2_mono)
  then have "ulp x / 2 \<le> pow2 (k - 52) / 2" by simp
  also have "pow2 (k - 52) / 2 = pow2 (k - 53)"
    using pow2_pred [of "k - 52"] by (simp add: algebra_simps)
  finally show ?thesis using fl_error [of x] by simp
qed

lemma fl_nonneg: "0 \<le> x \<Longrightarrow> 0 \<le> fl x"
  using ulp_pos [of x] by (simp add: fl_def py_round_nonneg)

lemma fl_nonpos: "x \<le> 0 \<Longrightarrow> fl x \<le> 0"
proof -
  assume "x \<le> 0"
  then have "x / ulp x \<le> 0" using ulp_pos [of x] by (simp add: divide_nonpos_pos)
  then have "py_round (x / ulp x) \<le> py_round 0" by (rule py_round_mono)
  then have "py_round (x / ulp x) \<le> 0" using py_round_of_int [of 0] by simp
  then show ?thesis using ulp_pos [of x] by (simp add: fl_def mult_le_0_iff)
qed

lemma pow2_52: "pow2 52 = of_int (2 ^ 52)"
  using pow2_nat [of 52] by simp

lemma pow2_53: "pow2 53 = of_int (2 ^ 53)"
  using pow2_nat [of 53] by simp

lemma fl_underflow:
  assumes "\<bar>x\<bar> \<le> pow2 (- 1075)" shows "fl x = 0"
proof -
  have "pow2 (- 1075) < pow2 (- 1022)" by (rule pow2_strict_mono) simp
  with assms have "\<bar>x\<bar> < pow2 (- 1022)" by (rule le_less_trans)
  then have "exponent x = - 1022" by (rule exponent_subnormal)
  then have u: "ulp x = pow2 (- 1074)" by (simp add: ulp_def)
  have "pow2 (- 1075) = pow2 (- 1074) / 2"
    using pow2_pred [of "- 1074"] by simp
  with assms have "\<bar>x\<bar> \<le> pow2 (- 1074) / 2" by simp
  then have "\<bar>x\<bar> / pow2 (- 1074) \<le> 1 / 2"
    using pow2_pos [of "- 1074"] by (simp add: field_simps)
  then have "\<bar>x / pow2 (- 1074)\<bar> \<le> 1 / 2"
    using pow2_pos [of "- 1074"] by (simp add: abs_divide)
  then have "py_round (x / pow2 (- 1074)) = 0" by (rule py_round_small)
  with u show ?thesis by (simp add: fl_def)
qed

lemma fl_normal_lower:
  assumes "pow2 (exponent x) \<le> x"
  shows "pow2 (exponent x) \<le> fl x"
proof -
  let ?e = "exponent x"
  have "?e - (?e - 52) = 52" by simp
  then have q: "pow2 ?e / pow2 (?e - 52) = of_int (2 ^ 52)"
    by (simp only: pow2_diff pow2_52)
  from assms have "pow2 ?e / ulp x \<le> x / ulp x"
    using ulp_pos [of x] by (simp add: divide_right_mono)
  with q have "of_int (2 ^ 52) \<le> x / ulp x" by (simp only: ulp_def)
  then have "py_round (of_int (2 ^ 52)) \<le> py_round (x / ulp x)" by (rule py_round_mono)
  then have "2 ^ 52 \<le> py_round (x / ulp x)" by (simp only: py_round_of_int)
  then have "(of_int (2 ^ 52) :: real) \<le> of_int (py_round (x / ulp x))" by (simp only: of_int_le_iff)
  then have "of_int (2 ^ 52) * ulp x \<le> fl x"
    using ulp_pos [of x] by (simp only: fl_def mult_le_cancel_right_pos)
  moreover have "of_int (2 ^ 52) * ulp x = pow2 ?e"
  proof -
    have "pow2 ?e = pow2 (52 + (?e - 52))" by (rule arg_cong [where f = pow2]) simp
    also have "\<dots> = pow2 52 * pow2 (?e - 52)" by (rule pow2_add)
    finally show ?thesis by (simp only: ulp_def pow2_52)
  qed
  ultimately show ?thesis by simp
qed

lemma fl_upper:
  assumes "0 \<le> x" "x < pow2 (exponent x + 1)"
  shows "fl x \<le> pow2 (exponent x + 1)"
proof -
  let ?e = "exponent x"
  have "?e + 1 - (?e - 52) = 53" by simp
  then have q: "pow2 (?e + 1) / pow2 (?e - 52) = of_int (2 ^ 53)"
    by (simp only: pow2_diff pow2_53)
  from assms have "x / ulp x \<le> pow2 (?e + 1) / ulp x"
    using ulp_pos [of x] by (simp add: divide_right_mono)
  with q have "x / ulp x \<le> of_int (2 ^ 53)" by (simp only: ulp_def)
  then have "py_round (x / ulp x) \<le> py_round (of_int (2 ^ 53))" by (rule py_round_mono)
  then have "py_round (x / ulp x) \<le> 2 ^ 53" by (simp only: py_round_of_int)
  then have "(of_int (py_round (x / ulp x)) :: real) \<le> of_int (2 ^ 53)" by (simp only: of_int_le_iff)
  then have "fl x \<le> of_int (2 ^ 53) * ulp x"
    using ulp_pos [of x] by (simp only: fl_def mult_le_cancel_right_pos)
  moreover have "of_int (2 ^ 53) * ulp x = pow2 (?e + 1)"
  proof -
    have "pow2 (?e + 1) = pow2 (53 + (?e - 52))" by (rule arg_cong [where f = pow2]) simp
    also have "\<dots> = pow2 53 * pow2 (?e - 52)" by (rule pow2_add)
    finally show ?thesis by (simp only: ulp_def pow2_53)
  qed
  ultimately show ?thesis by simp
qed

lemma fl_mono:
  assumes "0 \<le> x" "x \<le> y" "y < pow2 1024"
  shows "fl x \<le> fl y"
proof -
  from assms have ax: "\<bar>x\<bar> < pow2 1024" and ay: "\<bar>y\<bar> < pow2 1024" by simp_all
  from exponent_upper [OF ax] assms(1) have ux: "x < pow2 (exponent x + 1)" by simp
  from exponent_upper [OF ay] assms(1,2) have uy: "y < pow2 (exponent y + 1)" by simp
  have le: "exponent x \<le> exponent y"
  proof -
    from exponent_lower [of x] show ?thesis
    proof
      assume "pow2 (exponent x) \<le> \<bar>x\<bar>"
      with assms(1,2) uy have "pow2 (exponent x) < pow2 (exponent y + 1)"
        by simp
      then have "exponent x < exponent y + 1" by (rule pow2_less_imp)
      then show ?thesis by simp
    next
      assume "exponent x = - 1022"
      with exponent_range [of y] show ?thesis by simp
    qed
  qed
  show ?thesis
  proof (cases "exponent x = exponent y")
    case True
    then have u: "ulp x = ulp y" by (simp add: ulp_def)
    from assms(2) have "x / ulp y \<le> y / ulp y" using ulp_pos [of y] by (simp add: divide_right_mono)
    then have "py_round (x / ulp y) \<le> py_round (y / ulp y)" by (rule py_round_mono)
    then show ?thesis using ulp_pos [of y] by (simp add: fl_def u mult_right_mono)
  next
    case False
    with le have lt: "exponent x + 1 \<le> exponent y" by simp
    with exponent_range [of x] have "exponent y \<noteq> - 1022" by simp
    with exponent_lower [of y] assms(1,2) have "pow2 (exponent y) \<le> y" by simp
    then have "pow2 (exponent y) \<le> fl y" by (rule fl_normal_lower)
    moreover from assms(1) ux have "fl x \<le> pow2 (exponent x + 1)" by (rule fl_upper)
    moreover from lt have "pow2 (exponent x + 1) \<le> pow2 (exponent y)"
      by (rule pow2_mono)
    ultimately show ?thesis by linarith
  qed
qed

lemma fl_of_int:
  assumes "\<bar>n\<bar> < 2 ^ 53" shows "fl (of_int n) = of_int n"
proof -
  let ?e = "exponent (of_int n)"
  from assms have "\<bar>(of_int n :: real)\<bar> < of_int (2 ^ 53)"
    by (simp only: of_int_abs [symmetric] of_int_less_iff)
  then have "\<bar>(of_int n :: real)\<bar> < pow2 (52 + 1)" by (simp add: pow2_53)
  then have "?e \<le> 52" by (rule exponent_le) simp
  then have k: "int (nat (52 - ?e)) = 52 - ?e" by simp
  have "1 / pow2 (?e - 52) = pow2 (52 - ?e)"
    using pow2_diff [of 0 "?e - 52"] by (simp add: pow2_0)
  also have "\<dots> = 2 ^ nat (52 - ?e)" using pow2_nat [of "nat (52 - ?e)"] by (simp only: k)
  finally have inv: "1 / ulp (of_int n) = of_int (2 ^ nat (52 - ?e))"
    by (simp add: ulp_def)
  have "of_int n / ulp (of_int n) = (of_int n :: real) * (1 / ulp (of_int n))" by simp
  also have "\<dots> = of_int (n * 2 ^ nat (52 - ?e))" by (simp only: inv of_int_mult)
  finally have "py_round (of_int n / ulp (of_int n)) = n * 2 ^ nat (52 - ?e)"
    by (simp only: py_round_of_int)
  then have "fl (of_int n) = of_int (n * 2 ^ nat (52 - ?e)) * ulp (of_int n)"
    by (simp only: fl_def)
  also have "\<dots> = of_int n * (of_int (2 ^ nat (52 - ?e)) * ulp (of_int n))"
    by (simp only: of_int_mult mult.assoc)
  also have "of_int (2 ^ nat (52 - ?e)) * ulp (of_int n) = (1 :: real)"
    using ulp_pos [of "of_int n"] inv [symmetric] by simp
  finally show ?thesis by simp
qed

lemma fl_eval:
  assumes "pow2 k \<le> \<bar>x\<bar>" "\<bar>x\<bar> < pow2 (k + 1)" "- 1022 \<le> k" "k \<le> 1023"
  shows "fl x = of_int (py_round (x / pow2 (k - 52))) * pow2 (k - 52)"
  using exponent_eq [OF assms] by (simp add: fl_def ulp_def)

subsection \<open>Rounding numbers of the size of the tables\<close>

lemma fl_small_int:
  assumes "0 \<le> n" "n \<le> 2049" shows "fl (of_int n) = of_int n"
proof -
  have "(2049 :: int) < 2 ^ 53" by simp
  with assms have "\<bar>n\<bar> < 2 ^ 53" by linarith
  then show ?thesis by (rule fl_of_int)
qed

lemma fl_err_small:
  assumes "\<bar>x\<bar> < 16384" shows "\<bar>fl x - x\<bar> \<le> 1 / 2 ^ 40"
proof -
  have a: "pow2 (13 + 1) = 16384" by (simp add: pow2_def)
  have b: "pow2 (13 - 53) = 1 / 2 ^ 40" by (simp add: pow2_def power_int_minus_divide)
  from assms have "\<bar>x\<bar> < pow2 (13 + 1)" by (simp only: a)
  then have "\<bar>fl x - x\<bar> \<le> pow2 (13 - 53)" by (rule fl_error_bound) simp
  then show ?thesis by (simp only: b)
qed

lemma fl_mono_small:
  assumes "0 \<le> x" "x \<le> y" "y < 16384" shows "fl x \<le> fl y"
proof -
  have "pow2 14 \<le> pow2 1024" by (rule pow2_mono) simp
  moreover have "pow2 14 = 16384" by (simp add: pow2_def)
  ultimately have "y < pow2 1024" using assms(3) by linarith
  with assms(1,2) show ?thesis by (rule fl_mono)
qed

subsection \<open>The tables and the loop\<close>

lemma tables_ok: "T \<in> set pollutant_tables \<Longrightarrow> table_ok T"
  by (auto simp: pollutant_tables_def table_ok_def NO2_BREAKPOINTS_def HCHO_BREAKPOINTS_def
      O3_BREAKPOINTS_def entry_ok_def entry_small_def entry_before_def concentration_low_def
      concentration_high_def index_low_def index_high_def)

lemma loop_step:
  "calculate_aqi_loop c (e # rest) =
     (if in_range c e then
        (if concentration_high e - concentration_low e = 0 then Some (Inl ZeroDivisionError)
         else Some (Inr (py_round (float_interpolation e c))))
      else calculate_aqi_loop c rest)"
  by (cases e) (simp add: in_range_def float_interpolation_def concentration_low_def
      concentration_high_def index_low_def index_high_def)

lemma loop_None_iff: "calculate_aqi_loop c T = None \<longleftrightarrow> \<not> in_some_range c T"
  by (induction T) (simp_all add: loop_step in_some_range_def)

lemma loop_in_entry:
  assumes "list_all entry_ok T" "sorted_wrt entry_before T" "e \<in> set T" "in_range c e"
  shows "calculate_aqi_loop c T = Some (Inr (py_round (float_interpolation e c)))"
  using assms
proof (induction T)
  case Nil
  then show ?case by simp
next
  case (Cons h rest)
  show ?case
  proof (cases "e = h")
    case True
    with Cons.prems show ?thesis by (simp add: loop_step entry_ok_def)
  next
    case False
    with Cons.prems have e: "e \<in> set rest" and before: "entry_before h e" by auto
    from before Cons.prems(4) have "\<not> in_range c h"
      by (simp add: entry_before_def in_range_def)
    with Cons e show ?thesis by (simp add: loop_step)
  qed
qed

lemma range_nonneg: "entry_ok e \<Longrightarrow> in_range c e \<Longrightarrow> 0 \<le> c"
  by (simp add: entry_ok_def in_range_def)

lemma calculate_aqi_in_entry:
  assumes "table_ok T" "e \<in> set T" "in_range c e"
  shows "calculate_aqi (Some c) T = Inr (Some (py_round (float_interpolation e c)))"
proof -
  from assms have "entry_ok e" by (simp add: table_ok_def list_all_iff)
  then have "0 \<le> c" using assms(3) by (rule range_nonneg)
  moreover from assms have "calculate_aqi_loop c T = Some (Inr (py_round (float_interpolation e c)))"
    by (simp add: table_ok_def loop_in_entry)
  ultimately show ?thesis by (simp add: calculate_aqi_def)
qed

lemma calculate_aqi_no_entry:
  assumes "T \<noteq> []" "0 \<le> c" "\<not> in_some_range c T"
  shows "calculate_aqi (Some c) T = Inr (Some (index_high (last T)))"
  using assms loop_None_iff [of c T]
  by (cases T) (simp_all add: calculate_aqi_def index_high_def)

subsection \<open>The interpolation formula\<close>

lemma slope_nonneg: "entry_ok e \<Longrightarrow> 0 \<le> slope e"
  by (simp add: entry_ok_def slope_def)

lemma slope_pos: "entry_ok e \<Longrightarrow> 0 < slope e"
  by (simp add: entry_ok_def slope_def)

lemma slope_le: "entry_ok e \<Longrightarrow> entry_small e \<Longrightarrow> slope e \<le> 5"
proof -
  assume ok: "entry_ok e" and sm: "entry_small e"
  from ok have w: "(0::real) < of_int (concentration_high e - concentration_low e)"
    by (simp add: entry_ok_def)
  from sm have "index_high e - index_low e \<le> 5 * (concentration_high e - concentration_low e)"
    by (simp add: entry_small_def)
  then have "(of_int (index_high e - index_low e) :: real)
      \<le> of_int (5 * (concentration_high e - concentration_low e))"
    by (simp only: of_int_le_iff)
  then have "(of_int (index_high e - index_low e) :: real)
      \<le> 5 * of_int (concentration_high e - concentration_low e)" by simp
  with w show ?thesis unfolding slope_def by (simp only: pos_divide_le_eq)
qed

lemma interpolation_slope:
  "interpolation e c = slope e * (c - of_int (concentration_low e)) + of_int (index_low e)"
  by (simp add: interpolation_def slope_def)

lemma interpolation_mono:
  "entry_ok e \<Longrightarrow> c1 \<le> c2 \<Longrightarrow> interpolation e c1 \<le> interpolation e c2"
  by (simp add: interpolation_slope slope_nonneg mult_left_mono)

lemma interpolation_low: "interpolation e (of_int (concentration_low e)) = of_int (index_low e)"
  by (simp add: interpolation_def)

lemma interpolation_high:
  "entry_ok e \<Longrightarrow> interpolation e (of_int (concentration_high e)) = of_int (index_high e)"
  by (simp add: interpolation_def entry_ok_def)

text \<open>
  The formula in floating point, step by step, for an entry of the sizes of the tables
  and a concentration within its range.
\<close>

lemma float_interpolation_steps:
  assumes ok: "entry_ok e" and sm: "entry_small e" and r: "in_range c e"
  defines "q \<equiv> fl (slope e)"
    and "d \<equiv> fl (c - of_int (concentration_low e))"
  shows "float_interpolation e c = fl (fl (q * d) + of_int (index_low e))"
    and "0 \<le> q" and "\<bar>q - slope e\<bar> \<le> 1 / 2 ^ 40"
    and "0 \<le> d" and "\<bar>d - (c - of_int (concentration_low e))\<bar> \<le> 1 / 2 ^ 40"
    and "0 \<le> c - of_int (concentration_low e)" and "c - of_int (concentration_low e) \<le> 2049"
proof -
  from ok sm have lo: "0 \<le> concentration_low e" "concentration_low e \<le> 2049"
    and il: "0 \<le> index_low e" "index_low e \<le> 2049"
    by (simp_all add: entry_ok_def entry_small_def)
  have flo: "fl (of_int (concentration_low e)) = of_int (concentration_low e)"
    using lo by (rule fl_small_int)
  have fil: "fl (of_int (index_low e)) = of_int (index_low e)"
    using il by (rule fl_small_int)
  show "float_interpolation e c = fl (fl (q * d) + of_int (index_low e))"
    by (simp add: float_interpolation_def q_def d_def slope_def flo fil)
  from ok have s0: "0 \<le> slope e" by (rule slope_nonneg)
  from ok sm have s5: "slope e \<le> 5" by (rule slope_le)
  from s0 show "0 \<le> q" unfolding q_def by (rule fl_nonneg)
  from s0 s5 have "\<bar>slope e\<bar> < 16384" by simp
  then show "\<bar>q - slope e\<bar> \<le> 1 / 2 ^ 40" unfolding q_def by (rule fl_err_small)
  from r show d0: "0 \<le> c - of_int (concentration_low e)" by (simp add: in_range_def)
  from sm have "(of_int (concentration_high e) :: real) \<le> of_int 2049"
    by (simp only: of_int_le_iff entry_small_def)
  with r lo(1) show d1: "c - of_int (concentration_low e) \<le> 2049" by (simp add: in_range_def)
  from d0 show "0 \<le> d" unfolding d_def by (rule fl_nonneg)
  from d0 d1 have "\<bar>c - of_int (concentration_low e)\<bar> < 16384" by simp
  then show "\<bar>d - (c - of_int (concentration_low e))\<bar> \<le> 1 / 2 ^ 40"
    unfolding d_def by (rule fl_err_small)
qed

subsection \<open>The formula in floating point\<close>

lemma float_interpolation_nonneg:
  assumes "entry_ok e" "entry_small e" "in_range c e"
  shows "0 \<le> float_interpolation e c"
proof -
  note st = float_interpolation_steps [OF assms]
  from st(2,4) have "0 \<le> fl (fl (slope e) * fl (c - of_int (concentration_low e)))"
    by (simp add: fl_nonneg)
  moreover from assms(1) have "(0::real) \<le> of_int (index_low e)" by (simp add: entry_ok_def)
  ultimately show ?thesis unfolding st(1) by (simp add: fl_nonneg)
qed

lemma eps_le_1: "(1 :: real) / 2 ^ 40 \<le> 1"
  by simp

lemma error_sum:
  fixes F p i m t eps :: real
  assumes "\<bar>F - (p + i)\<bar> \<le> eps" "\<bar>p - m\<bar> \<le> eps" "\<bar>m - t\<bar> \<le> 2055 * eps"
  shows "\<bar>F - (t + i)\<bar> \<le> 2057 * eps"
  using assms by linarith

lemma product_bounds:
  fixes q d s x :: real
  assumes "0 \<le> q" "\<bar>q - s\<bar> \<le> 1 / 2 ^ 40" "0 \<le> s" "s \<le> 5"
    and "0 \<le> d" "\<bar>d - x\<bar> \<le> 1 / 2 ^ 40" "0 \<le> x" "x \<le> 2049"
  shows "0 \<le> q * d" and "q * d \<le> 12300" and "\<bar>q * d - s * x\<bar> \<le> 2055 * (1 / 2 ^ 40)"
proof -
  from assms(2,4) eps_le_1 have q6: "q \<le> 6" by linarith
  from assms(6,8) eps_le_1 have d2: "d \<le> 2050" by linarith
  from assms(1,5) show "0 \<le> q * d" by simp
  from q6 d2 have "q * d \<le> 6 * 2050" by (rule mult_mono) (use assms(5) in simp_all)
  then show "q * d \<le> 12300" by simp
  have "q * d - s * x = (q - s) * d + s * (d - x)" by (simp add: algebra_simps)
  then have "\<bar>q * d - s * x\<bar> \<le> \<bar>(q - s) * d\<bar> + \<bar>s * (d - x)\<bar>" by simp
  also have "\<bar>(q - s) * d\<bar> = \<bar>q - s\<bar> * d" using assms(5) by (simp add: abs_mult)
  also have "\<bar>s * (d - x)\<bar> = s * \<bar>d - x\<bar>" using assms(3) by (simp add: abs_mult)
  finally have "\<bar>q * d - s * x\<bar> \<le> \<bar>q - s\<bar> * d + s * \<bar>d - x\<bar>" .
  moreover have "\<bar>q - s\<bar> * d \<le> (1 / 2 ^ 40) * 2050"
    using assms(2) d2 by (rule mult_mono) (use assms(5) in simp_all)
  moreover have "s * \<bar>d - x\<bar> \<le> 5 * (1 / 2 ^ 40)"
    using assms(4,6) by (rule mult_mono) (use assms(3) in simp_all)
  ultimately show "\<bar>q * d - s * x\<bar> \<le> 2055 * (1 / 2 ^ 40)" by linarith
qed

lemma float_interpolation_error:
  assumes ok: "entry_ok e" and sm: "entry_small e" and r: "in_range c e"
  shows "\<bar>float_interpolation e c - interpolation e c\<bar> \<le> 1 / 2 ^ 28"
proof -
  define q where "q = fl (slope e)"
  define x where "x = c - of_int (concentration_low e)"
  define d where "d = fl x"
  define p where "p = fl (q * d)"
  define i where "i = (of_int (index_low e) :: real)"
  note st = float_interpolation_steps [OF assms, folded x_def q_def d_def]
  from ok have s0: "0 \<le> slope e" by (rule slope_nonneg)
  from ok sm have s5: "slope e \<le> 5" by (rule slope_le)
  note pb = product_bounds [OF st(2,3) s0 s5 st(4,5,6,7)]
  from pb(1,2) have "\<bar>q * d\<bar> < 16384" by simp
  then have ep: "\<bar>p - q * d\<bar> \<le> 1 / 2 ^ 40" unfolding p_def by (rule fl_err_small)
  from ok sm have i0: "0 \<le> i" and i5: "i \<le> 500"
    by (simp_all add: i_def entry_ok_def entry_small_def)
  from ep pb(1) eps_le_1 have p0: "- 1 \<le> p" by linarith
  from ep pb(2) eps_le_1 have p1: "p \<le> 12301" by linarith
  from p0 p1 i0 i5 have "\<bar>p + i\<bar> < 16384" by linarith
  then have ef: "\<bar>fl (p + i) - (p + i)\<bar> \<le> 1 / 2 ^ 40" by (rule fl_err_small)
  have F: "float_interpolation e c = fl (p + i)" by (simp only: st(1) p_def i_def)
  have I: "interpolation e c = slope e * x + i" by (simp add: interpolation_slope x_def i_def)
  from ef ep pb(3) have "\<bar>fl (p + i) - (slope e * x + i)\<bar> \<le> 2057 * (1 / 2 ^ 40)"
    by (rule error_sum)
  also have "(2057 :: real) * (1 / 2 ^ 40) \<le> 1 / 2 ^ 28" by simp
  finally show ?thesis by (simp only: F I)
qed

lemma float_interpolation_mono:
  assumes ok: "entry_ok e" and sm: "entry_small e"
    and r1: "in_range c1 e" and r2: "in_range c2 e" and le: "c1 \<le> c2"
  shows "float_interpolation e c1 \<le> float_interpolation e c2"
proof -
  define q where "q = fl (slope e)"
  define i where "i = (of_int (index_low e) :: real)"
  define x1 where "x1 = c1 - of_int (concentration_low e)"
  define x2 where "x2 = c2 - of_int (concentration_low e)"
  note st1 = float_interpolation_steps [OF ok sm r1, folded x1_def q_def]
  note st2 = float_interpolation_steps [OF ok sm r2, folded x2_def q_def]
  from ok have s0: "0 \<le> slope e" by (rule slope_nonneg)
  from ok sm have s5: "slope e \<le> 5" by (rule slope_le)
  note pb1 = product_bounds [OF st1(2,3) s0 s5 st1(4,5,6,7)]
  note pb2 = product_bounds [OF st2(2,3) s0 s5 st2(4,5,6,7)]
  from le have "x1 \<le> x2" by (simp add: x1_def x2_def)
  with st1(6) have d: "fl x1 \<le> fl x2" using st2(7) by (intro fl_mono_small) simp_all
  from d st1(2) have "q * fl x1 \<le> q * fl x2" by (rule mult_left_mono)
  with pb1(1) have p: "fl (q * fl x1) \<le> fl (q * fl x2)"
    using pb2(2) by (intro fl_mono_small) simp_all
  from ok sm have i0: "0 \<le> i" and i5: "i \<le> 500"
    by (simp_all add: i_def entry_ok_def entry_small_def)
  from pb1(1) have a: "0 \<le> fl (q * fl x1) + i" using i0 by (simp add: fl_nonneg)
  from pb2(1,2) have "\<bar>q * fl x2\<bar> < 16384" by simp
  then have "\<bar>fl (q * fl x2) - q * fl x2\<bar> \<le> 1 / 2 ^ 40" by (rule fl_err_small)
  with pb2(2) i5 eps_le_1 have b: "fl (q * fl x2) + i < 16384" by linarith
  from p have "fl (q * fl x1) + i \<le> fl (q * fl x2) + i" by simp
  with a have "fl (fl (q * fl x1) + i) \<le> fl (fl (q * fl x2) + i)"
    using b by (intro fl_mono_small)
  then show ?thesis by (simp only: st1(1) st2(1) i_def)
qed

lemma float_interpolation_round:
  assumes "entry_ok e" "entry_small e" "in_range c e"
    and "\<bar>interpolation e c - of_int n\<bar> < 1 / 2 - 1 / 2 ^ 28"
  shows "py_round (float_interpolation e c) = n"
proof -
  from assms(1-3) have "\<bar>float_interpolation e c - interpolation e c\<bar> \<le> 1 / 2 ^ 28"
    by (rule float_interpolation_error)
  with assms(4) have "\<bar>float_interpolation e c - of_int n\<bar> < 1 / 2" by linarith
  then show ?thesis by (rule py_round_close)
qed

subsection \<open>Concentrations that no entry contains\<close>

lemma last_high_max:
  assumes "list_all entry_ok T" "sorted_wrt entry_before T" "e \<in> set T"
  shows "concentration_high e \<le> concentration_high (last T)"
  using assms
proof (induction T)
  case Nil
  then show ?case by simp
next
  case (Cons h rest)
  show ?case
  proof (cases "rest = []")
    case True
    with Cons.prems show ?thesis by simp
  next
    case False
    then have l: "last rest \<in> set rest" by simp
    show ?thesis
    proof (cases "e = h")
      case True
      from Cons.prems l have "entry_before h (last rest)" "entry_ok (last rest)"
        by (auto simp: list_all_iff)
      with True False show ?thesis by (simp add: entry_before_def entry_ok_def)
    next
      case False
      with Cons \<open>rest \<noteq> []\<close> show ?thesis by simp
    qed
  qed
qed

lemma above_no_entry:
  assumes "table_ok T" "of_int (concentration_high (last T)) < c"
  shows "\<not> in_some_range c T"
proof
  assume "in_some_range c T"
  then obtain e where e: "e \<in> set T" "in_range c e"
    by (auto simp: in_some_range_def list_ex_iff)
  with assms(1) have "concentration_high e \<le> concentration_high (last T)"
    by (simp add: table_ok_def last_high_max)
  then have "(of_int (concentration_high e) :: real) \<le> of_int (concentration_high (last T))"
    by simp
  with e(2) assms(2) show False by (simp add: in_range_def)
qed

lemma gap_no_entry:
  assumes "table_ok T" "Suc i < length T"
    "of_int (concentration_high (T ! i)) < c" "c < of_int (concentration_low (T ! Suc i))"
  shows "\<not> in_some_range c T"
proof
  assume "in_some_range c T"
  then obtain j where j: "j < length T" "in_range c (T ! j)"
    by (auto simp: in_some_range_def list_ex_iff in_set_conv_nth)
  from assms(1) have s: "sorted_wrt entry_before T" and ok: "\<forall>e\<in>set T. entry_ok e"
    by (simp_all add: table_ok_def list_all_iff)
  show False
  proof (cases "j \<le> i")
    case True
    have "concentration_high (T ! j) \<le> concentration_high (T ! i)"
    proof (cases "j = i")
      case True
      then show ?thesis by simp
    next
      case False
      with True assms(2) s have "entry_before (T ! j) (T ! i)"
        by (simp add: sorted_wrt_nth_less)
      moreover from ok assms(2) have "entry_ok (T ! i)" by simp
      ultimately show ?thesis by (simp add: entry_before_def entry_ok_def)
    qed
    then have "(of_int (concentration_high (T ! j)) :: real) \<le> of_int (concentration_high (T ! i))"
      by simp
    with j(2) assms(3) show False by (simp add: in_range_def)
  next
    case False
    have "concentration_low (T ! Suc i) \<le> concentration_low (T ! j)"
    proof (cases "j = Suc i")
      case True
      then show ?thesis by simp
    next
      case F: False
      with False j(1) s have "entry_before (T ! Suc i) (T ! j)"
        by (simp add: sorted_wrt_nth_less)
      moreover from ok assms(2) have "entry_ok (T ! Suc i)" by simp
      ultimately show ?thesis by (simp add: entry_before_def entry_ok_def)
    qed
    then have "(of_int (concentration_low (T ! Suc i)) :: real) \<le> of_int (concentration_low (T ! j))"
      by simp
    with j(2) assms(4) show False by (simp add: in_range_def)
  qed
qed

lemma last_index_max:
  assumes "list_all entry_ok T" "sorted_wrt entry_before T" "e \<in> set T"
  shows "index_high e \<le> index_high (last T)"
  using assms
proof (induction T)
  case Nil
  then show ?case by simp
next
  case (Cons h rest)
  show ?case
  proof (cases "rest = []")
    case True
    with Cons.prems show ?thesis by simp
  next
    case False
    then have l: "last rest \<in> set rest" by simp
    show ?thesis
    proof (cases "e = h")
      case True
      from Cons.prems l have "entry_before h (last rest)" "entry_ok (last rest)"
        by (auto simp: list_all_iff)
      with True False show ?thesis by (simp add: entry_before_def entry_ok_def)
    next
      case False
      with Cons \<open>rest \<noteq> []\<close> show ?thesis by simp
    qed
  qed
qed


subsection \<open>Values at and away from the ends of an entry\<close>

lemma calculate_aqi_value:
  assumes "table_ok T" "e \<in> set T" "in_range c e"
    and "\<bar>interpolation e c - of_int n\<bar> < 1 / 2 - 1 / 2 ^ 28"
  shows "calculate_aqi (Some c) T = Inr (Some n)"
proof -
  from assms(1,2) have "entry_ok e" "entry_small e" by (simp_all add: table_ok_def list_all_iff)
  then have "py_round (float_interpolation e c) = n"
    using assms(3,4) by (rule float_interpolation_round)
  with calculate_aqi_in_entry [OF assms(1-3)] show ?thesis by simp
qed

lemma calculate_aqi_low:
  assumes "table_ok T" "e \<in> set T"
  shows "calculate_aqi (Some (of_int (concentration_low e))) T = Inr (Some (index_low e))"
proof -
  from assms have "entry_ok e" by (simp add: table_ok_def list_all_iff)
  then have "in_range (of_int (concentration_low e)) e" by (simp add: in_range_def entry_ok_def)
  moreover have "\<bar>interpolation e (of_int (concentration_low e)) - of_int (index_low e)\<bar>
      < 1 / 2 - 1 / 2 ^ 28" by (simp add: interpolation_low)
  ultimately show ?thesis using assms by (intro calculate_aqi_value)
qed

lemma calculate_aqi_high:
  assumes "table_ok T" "e \<in> set T"
  shows "calculate_aqi (Some (of_int (concentration_high e))) T = Inr (Some (index_high e))"
proof -
  from assms have ok: "entry_ok e" by (simp add: table_ok_def list_all_iff)
  then have "in_range (of_int (concentration_high e)) e" by (simp add: in_range_def entry_ok_def)
  moreover have "\<bar>interpolation e (of_int (concentration_high e)) - of_int (index_high e)\<bar>
      < 1 / 2 - 1 / 2 ^ 28" using ok by (simp add: interpolation_high)
  ultimately show ?thesis using assms by (intro calculate_aqi_value)
qed

subsection \<open>Totality on well-formed tables\<close>

lemma calculate_aqi_total:
  assumes "table_ok T"
  shows "\<exists>r. calculate_aqi c T = Inr r \<and> (\<forall>v. r = Some v \<longrightarrow> 0 \<le> v)"
proof (cases c)
  case None
  then show ?thesis by (simp add: calculate_aqi_def)
next
  case (Some x)
  show ?thesis
  proof (cases "x < 0")
    case True
    with Some show ?thesis by (simp add: calculate_aqi_def)
  next
    case nn: False
    show ?thesis
    proof (cases "in_some_range x T")
      case True
      then obtain e where e: "e \<in> set T" "in_range x e"
        by (auto simp: in_some_range_def list_ex_iff)
      with assms have ok: "entry_ok e" "entry_small e" by (simp_all add: table_ok_def list_all_iff)
      from assms e have "calculate_aqi (Some x) T = Inr (Some (py_round (float_interpolation e x)))"
        by (rule calculate_aqi_in_entry)
      moreover from ok e(2) have "0 \<le> py_round (float_interpolation e x)"
        by (simp add: float_interpolation_nonneg py_round_nonneg)
      ultimately show ?thesis using Some by simp
    next
      case False
      with assms nn have "calculate_aqi (Some x) T = Inr (Some (index_high (last T)))"
        by (simp add: calculate_aqi_no_entry table_ok_def)
      moreover from assms have "entry_ok (last T)" by (simp add: table_ok_def list_all_iff)
      then have "0 \<le> index_high (last T)" by (simp add: entry_ok_def)
      ultimately show ?thesis using Some by simp
    qed
  qed
qed

subsection \<open>The aggregation in closed form\<close>

lemma combined_eval:
  assumes "get_no2_aqi n = Inr a" "get_hcho_aqi h = Inr b" "get_o3_aqi ozone = Inr c"
  shows "get_combined_aqi n h ozone =
    Inr (if at_least a b \<and> at_least a c then (a, Some ''NO2'')
         else if at_least b c then (b, Some ''HCHO'')
         else if c \<noteq> None then (c, Some ''O3'')
         else (None, None))"
  using assms
  by (cases a; cases b; cases c)
     (simp_all add: get_combined_aqi_def bind_err_def py_max_def at_least_def Let_def)

text \<open>The three per-pollutant calls never raise, and a valid sub-index is non-negative.\<close>

lemma sub_indices:
  "\<exists>a b c. get_no2_aqi n = Inr a \<and> get_hcho_aqi h = Inr b \<and> get_o3_aqi ozone = Inr c
     \<and> (\<forall>v. a = Some v \<longrightarrow> 0 \<le> v) \<and> (\<forall>v. b = Some v \<longrightarrow> 0 \<le> v)
     \<and> (\<forall>v. c = Some v \<longrightarrow> 0 \<le> v)"
proof -
  have "table_ok NO2_BREAKPOINTS" "table_ok HCHO_BREAKPOINTS" "table_ok O3_BREAKPOINTS"
    by (simp_all add: tables_ok pollutant_tables_def)
  then show ?thesis
    unfolding get_no2_aqi_def get_hcho_aqi_def get_o3_aqi_def
    using calculate_aqi_total by meson
qed

lemma missing_sub_index:
  "get_no2_aqi None = Inr None" "get_hcho_aqi None = Inr None" "get_o3_aqi None = Inr None"
  by (simp_all add: get_no2_aqi_def get_hcho_aqi_def get_o3_aqi_def no2_column_to_ppb_def
      hcho_column_to_ppb_def calculate_aqi_def)

subsection \<open>Disjointness and integer coverage\<close>

lemma ordered_disjoint:
  assumes "list_all entry_ok T" "sorted_wrt entry_before T"
    "e \<in> set T" "e' \<in> set T" "in_range c e" "in_range c e'"
  shows "e = e'"
proof (rule ccontr)
  assume ne: "e \<noteq> e'"
  from assms(3,4) obtain i j where ij: "i < length T" "T ! i = e" "j < length T" "T ! j = e'"
    by (auto simp: in_set_conv_nth)
  with ne have "i \<noteq> j" by auto
  then consider "i < j" | "j < i" by linarith
  then show False
  proof cases
    case 1
    with assms(2) ij have "entry_before e e'" by (auto simp: sorted_wrt_iff_nth_less)
    with assms(5,6) show False by (simp add: entry_before_def in_range_def)
  next
    case 2
    with assms(2) ij have "entry_before e' e" by (auto simp: sorted_wrt_iff_nth_less)
    with assms(5,6) show False by (simp add: entry_before_def in_range_def)
  qed
qed

lemma tables_contiguous: "T \<in> set pollutant_tables \<Longrightarrow> contiguous_int T"
  by (auto simp: pollutant_tables_def contiguous_int_def NO2_BREAKPOINTS_def HCHO_BREAKPOINTS_def
      O3_BREAKPOINTS_def concentration_low_def concentration_high_def)

lemma contiguous_cover_aux:
  assumes "T \<noteq> []" "successively (\<lambda>e e'. concentration_low e' = concentration_high e + 1) T"
    "concentration_low (hd T) \<le> n" "n \<le> concentration_high (last T)"
  shows "in_some_range (of_int n) T"
  using assms
proof (induction T)
  case Nil
  then show ?case by simp
next
  case (Cons h rest)
  show ?case
  proof (cases "n \<le> concentration_high h")
    case True
    with Cons.prems(3) show ?thesis by (simp add: in_some_range_def in_range_def)
  next
    case False
    with Cons.prems(4) have ne: "rest \<noteq> []" by auto
    with Cons.prems(2) have "concentration_low (hd rest) = concentration_high h + 1"
      and "successively (\<lambda>e e'. concentration_low e' = concentration_high e + 1) rest"
      by (cases rest; simp)+
    with Cons.IH ne False Cons.prems(4) have "in_some_range (of_int n) rest" by simp
    then show ?thesis by (simp add: in_some_range_def)
  qed
qed

subsection \<open>Negative columns, underflow and a tie\<close>

lemma fl_neg:
  assumes "y \<le> - pow2 (- 1022)" shows "fl y < 0"
proof -
  let ?e = "exponent y"
  from pow2_pos [of "- 1022"] assms have neg: "y < 0" by linarith
  have low: "pow2 ?e \<le> - y"
  proof -
    from exponent_lower [of y] show ?thesis
    proof
      assume "pow2 ?e \<le> \<bar>y\<bar>"
      with neg show ?thesis by simp
    next
      assume "?e = - 1022"
      with assms show ?thesis by simp
    qed
  qed
  have "?e - (?e - 52) = 52" by simp
  then have q: "pow2 ?e / pow2 (?e - 52) = of_int (2 ^ 52)"
    by (simp only: pow2_diff pow2_52)
  from low have "pow2 ?e / ulp y \<le> (- y) / ulp y"
    using ulp_pos [of y] by (simp only: divide_right_mono less_imp_le)
  with q have "y / ulp y \<le> of_int (- (2 ^ 52))" by (simp add: ulp_def)
  then have "py_round (y / ulp y) \<le> py_round (of_int (- (2 ^ 52)))" by (rule py_round_mono)
  then have "py_round (y / ulp y) \<le> - (2 ^ 52)" by (simp only: py_round_of_int)
  then have "py_round (y / ulp y) < 0" by simp
  then have "(of_int (py_round (y / ulp y)) :: real) < 0" by simp
  then show ?thesis using ulp_pos [of y] by (simp add: fl_def mult_neg_pos)
qed

lemma no2_ppb_negative:
  assumes "x \<le> - 1" shows "\<exists>y<0. no2_column_to_ppb (Some x) = Some y"
proof -
  have "pow2 (- 1022) \<le> pow2 (- 51)" by (rule pow2_mono) simp
  also have "pow2 (- 51) \<le> 1 / 2000000000000000" by (simp add: pow2_def power_int_minus_divide)
  finally have "- (1 / 2000000000000000) \<le> - pow2 (- 1022)" by simp
  moreover from assms have "x / 2000000000000000 \<le> - (1 / 2000000000000000)" by simp
  ultimately have "x / 2000000000000000 \<le> - pow2 (- 1022)" by linarith
  then have "fl (x / 2000000000000000) < 0" by (rule fl_neg)
  then show ?thesis by (simp add: no2_column_to_ppb_def)
qed

lemma hcho_ppb_negative:
  assumes "x \<le> - 1" shows "\<exists>y<0. hcho_column_to_ppb (Some x) = Some y"
proof -
  have "pow2 (- 1022) \<le> pow2 (- 54)" by (rule pow2_mono) simp
  also have "pow2 (- 54) \<le> 1 / 10000000000000000" by (simp add: pow2_def power_int_minus_divide)
  finally have "- (1 / 10000000000000000) \<le> - pow2 (- 1022)" by simp
  moreover from assms have "x / 10000000000000000 \<le> - (1 / 10000000000000000)" by simp
  ultimately have "x / 10000000000000000 \<le> - pow2 (- 1022)" by linarith
  then have "fl (x / 10000000000000000) < 0" by (rule fl_neg)
  then show ?thesis by (simp add: hcho_column_to_ppb_def)
qed

lemma no2_underflow: "no2_column_to_ppb (Some (- (1 / 2 ^ 1074))) = Some 0"
proof -
  have "pow2 (- 1075) = 1 / 2 ^ 1075" by (simp add: pow2_def power_int_minus_divide)
  moreover have "\<bar>- (1 / 2 ^ 1074) / 2000000000000000 :: real\<bar> \<le> 1 / 2 ^ 1075" by simp
  ultimately have "\<bar>- (1 / 2 ^ 1074) / 2000000000000000 :: real\<bar> \<le> pow2 (- 1075)" by simp
  then have "fl (- (1 / 2 ^ 1074) / 2000000000000000) = 0" by (rule fl_underflow)
  then show ?thesis by (simp only: no2_column_to_ppb_def option.case)
qed

lemma fl_5: "fl 5 = 5"
  using fl_small_int [of 5] by simp

lemma fl_tenth:
  "fl (3602879701896397 / 36028797018963968) = 3602879701896397 / 36028797018963968"
proof -
  have "fl (3602879701896397 / 36028797018963968)
      = of_int (py_round (3602879701896397 / 36028797018963968 / pow2 (- 4 - 52)))
          * pow2 (- 4 - 52)"
    by (rule fl_eval) (simp_all add: pow2_def power_int_minus_divide)
  also have "\<dots> = 3602879701896397 / 36028797018963968"
    by (simp add: pow2_def power_int_minus_divide py_round_def Let_def)
  finally show ?thesis .
qed

lemma fl_half_up: "fl (18014398509481985 / 36028797018963968) = 1 / 2"
proof -
  have "fl (18014398509481985 / 36028797018963968)
      = of_int (py_round (18014398509481985 / 36028797018963968 / pow2 (- 1 - 52)))
          * pow2 (- 1 - 52)"
    by (rule fl_eval) (simp_all add: pow2_def power_int_minus_divide)
  also have "\<dots> = 1 / 2"
    by (simp add: pow2_def power_int_minus_divide py_round_def Let_def)
  finally show ?thesis .
qed

lemma fl_half: "fl (1 / 2) = 1 / 2"
proof -
  have "fl (1 / 2) = of_int (py_round (1 / 2 / pow2 (- 1 - 52))) * pow2 (- 1 - 52)"
    by (rule fl_eval) (simp_all add: pow2_def power_int_minus_divide)
  also have "\<dots> = 1 / 2"
    by (simp add: pow2_def power_int_minus_divide py_round_def Let_def)
  finally show ?thesis .
qed

lemma hcho_tenth:
  "calculate_aqi (Some (3602879701896397 / 36028797018963968)) HCHO_BREAKPOINTS = Inr (Some 0)"
proof -
  have "py_round (1 / 2) = 0" by (simp add: py_round_def Let_def)
  then show ?thesis
    by (simp add: calculate_aqi_def HCHO_BREAKPOINTS_def fl_zero fl_5 fl_tenth fl_half_up fl_half)
qed

subsection \<open>Columns that convert exactly\<close>

lemma no2_ppb_int:
  assumes "\<bar>n\<bar> \<le> 2049"
  shows "no2_column_to_ppb (Some (of_int n * 2000000000000000)) = Some (of_int n)"
proof -
  have "(2049 :: int) < 2 ^ 53" by simp
  with assms have "\<bar>n\<bar> < 2 ^ 53" by linarith
  then have "fl (of_int n) = of_int n" by (rule fl_of_int)
  then show ?thesis by (simp add: no2_column_to_ppb_def)
qed

lemma hcho_ppb_int:
  assumes "\<bar>n\<bar> \<le> 2049"
  shows "hcho_column_to_ppb (Some (of_int n * 10000000000000000)) = Some (of_int n)"
proof -
  have "(2049 :: int) < 2 ^ 53" by simp
  with assms have "\<bar>n\<bar> < 2 ^ 53" by linarith
  then have "fl (of_int n) = of_int n" by (rule fl_of_int)
  then show ?thesis by (simp add: hcho_column_to_ppb_def)
qed

lemma table_ok_NO2: "table_ok NO2_BREAKPOINTS"
  by (simp add: tables_ok pollutant_tables_def)

lemma table_ok_HCHO: "table_ok HCHO_BREAKPOINTS"
  by (simp add: tables_ok pollutant_tables_def)

lemma table_ok_O3: "table_ok O3_BREAKPOINTS"
  by (simp add: tables_ok pollutant_tables_def)

lemma no2_53: "calculate_aqi (Some 53) NO2_BREAKPOINTS = Inr (Some 50)"
  using calculate_aqi_high [OF table_ok_NO2, of "(0, 53, 0, 50)"]
  by (simp add: NO2_BREAKPOINTS_def concentration_high_def index_high_def)

lemma no2_54: "calculate_aqi (Some 54) NO2_BREAKPOINTS = Inr (Some 51)"
  using calculate_aqi_low [OF table_ok_NO2, of "(54, 100, 51, 100)"]
  by (simp add: NO2_BREAKPOINTS_def concentration_low_def index_low_def)

lemma no2_60: "calculate_aqi (Some 60) NO2_BREAKPOINTS = Inr (Some 57)"
  by (rule calculate_aqi_value [OF table_ok_NO2, of "(54, 100, 51, 100)"])
     (simp_all add: NO2_BREAKPOINTS_def in_range_def interpolation_def concentration_low_def
       concentration_high_def index_low_def index_high_def)

lemma o3_54: "calculate_aqi (Some 54) O3_BREAKPOINTS = Inr (Some 50)"
  using calculate_aqi_high [OF table_ok_O3, of "(0, 54, 0, 50)"]
  by (simp add: O3_BREAKPOINTS_def concentration_high_def index_high_def)

lemma o3_70: "calculate_aqi (Some 70) O3_BREAKPOINTS = Inr (Some 100)"
  using calculate_aqi_high [OF table_ok_O3, of "(55, 70, 51, 100)"]
  by (simp add: O3_BREAKPOINTS_def concentration_high_def index_high_def)

lemma o3_30: "calculate_aqi (Some 30) O3_BREAKPOINTS = Inr (Some 28)"
  by (rule calculate_aqi_value [OF table_ok_O3, of "(0, 54, 0, 50)"])
     (simp_all add: O3_BREAKPOINTS_def in_range_def interpolation_def concentration_low_def
       concentration_high_def index_low_def index_high_def)

lemma o3_56: "calculate_aqi (Some 56) O3_BREAKPOINTS = Inr (Some 54)"
  by (rule calculate_aqi_value [OF table_ok_O3, of "(55, 70, 51, 100)"])
     (simp_all add: O3_BREAKPOINTS_def in_range_def interpolation_def concentration_low_def
       concentration_high_def index_low_def index_high_def)

lemma o3_57: "calculate_aqi (Some 57) O3_BREAKPOINTS = Inr (Some 58)"
  by (rule calculate_aqi_value [OF table_ok_O3, of "(55, 70, 51, 100)"])
     (simp_all add: O3_BREAKPOINTS_def in_range_def interpolation_def concentration_low_def
       concentration_high_def index_low_def index_high_def)

lemma o3_58: "calculate_aqi (Some 58) O3_BREAKPOINTS = Inr (Some 61)"
  by (rule calculate_aqi_value [OF table_ok_O3, of "(55, 70, 51, 100)"])
     (simp_all add: O3_BREAKPOINTS_def in_range_def interpolation_def concentration_low_def
       concentration_high_def index_low_def index_high_def)

lemma hcho_10: "calculate_aqi (Some 10) HCHO_BREAKPOINTS = Inr (Some 50)"
  using calculate_aqi_high [OF table_ok_HCHO, of "(0, 10, 0, 50)"]
  by (simp add: HCHO_BREAKPOINTS_def concentration_high_def index_high_def)

lemma hcho_30: "calculate_aqi (Some 30) HCHO_BREAKPOINTS = Inr (Some 100)"
  using calculate_aqi_high [OF table_ok_HCHO, of "(11, 30, 51, 100)"]
  by (simp add: HCHO_BREAKPOINTS_def concentration_high_def index_high_def)

lemma no2_column_values:
  "no2_column_to_ppb (Some 106000000000000000) = Some 53"
  "no2_column_to_ppb (Some 120000000000000000) = Some 60"
  "no2_column_to_ppb (Some (- 10000000000000000)) = Some (- 5)"
  using no2_ppb_int [of 53] no2_ppb_int [of 60] no2_ppb_int [of "- 5"] by simp_all

lemma hcho_column_values:
  "hcho_column_to_ppb (Some 300000000000000000) = Some 30"
  "hcho_column_to_ppb (Some 100000000000000000) = Some 10"
  "hcho_column_to_ppb (Some (- 50000000000000000)) = Some (- 5)"
  using hcho_ppb_int [of 30] hcho_ppb_int [of 10] hcho_ppb_int [of "- 5"] by simp_all

lemma sub_index_values:
  "get_no2_aqi (Some 106000000000000000) = Inr (Some 50)"
  "get_no2_aqi (Some 120000000000000000) = Inr (Some 57)"
  "get_hcho_aqi (Some 300000000000000000) = Inr (Some 100)"
  "get_hcho_aqi (Some 100000000000000000) = Inr (Some 50)"
  "get_o3_aqi (Some 70) = Inr (Some 100)"
  "get_o3_aqi (Some 54) = Inr (Some 50)"
  "get_o3_aqi (Some 30) = Inr (Some 28)"
  by (simp_all add: get_no2_aqi_def get_hcho_aqi_def get_o3_aqi_def no2_column_values
      hcho_column_values no2_53 no2_60 hcho_30 hcho_10 o3_70 o3_54 o3_30)

section \<open>The claims\<close>

subsection \<open>Interpolation inside an entry\<close>

text \<open>
  C1, as amended. For every table \<open>T\<close> of the three, every entry \<open>e\<close> of \<open>T\<close> and every
  non-negative concentration \<open>c\<close> within the inclusive range of \<open>e\<close>, \<open>calculate_aqi\<close>
  returns the interpolation formula evaluated in binary64 arithmetic, rounded to a
  nearest integer (ties to even). The floating-point value is within \<open>2^-28\<close> of the
  exact value of the formula, so the result is the nearest integer to the exact value
  whenever that value is more than \<open>2^-28\<close> away from the midpoint between two integers.
  At the two ends of the range the result is exactly \<open>index_low\<close> and \<open>index_high\<close> of the
  entry; NO2 at 53 ppb gives 50 and at 54 ppb gives 51.
\<close>

theorem calculate_aqi_interpolates:
  assumes "T \<in> set pollutant_tables" "e \<in> set T" "0 \<le> c" "in_range c e"
  shows "calculate_aqi (Some c) T = Inr (Some (py_round (float_interpolation e c)))
    \<and> \<bar>float_interpolation e c - of_int (py_round (float_interpolation e c))\<bar> \<le> 1 / 2
    \<and> \<bar>float_interpolation e c - interpolation e c\<bar> \<le> 1 / 2 ^ 28
    \<and> (\<forall>n. \<bar>interpolation e c - of_int n\<bar> < 1 / 2 - 1 / 2 ^ 28
           \<longrightarrow> calculate_aqi (Some c) T = Inr (Some n))
    \<and> calculate_aqi (Some (of_int (concentration_low e))) T = Inr (Some (index_low e))
    \<and> calculate_aqi (Some (of_int (concentration_high e))) T = Inr (Some (index_high e))
    \<and> calculate_aqi (Some 53) NO2_BREAKPOINTS = Inr (Some 50)
    \<and> calculate_aqi (Some 54) NO2_BREAKPOINTS = Inr (Some 51)"
proof -
  from assms(1) have ok: "table_ok T" by (rule tables_ok)
  with assms(2) have eok: "entry_ok e" "entry_small e" by (simp_all add: table_ok_def list_all_iff)
  have "calculate_aqi (Some c) T = Inr (Some (py_round (float_interpolation e c)))"
    using ok assms(2,4) by (rule calculate_aqi_in_entry)
  moreover have "\<bar>float_interpolation e c - of_int (py_round (float_interpolation e c))\<bar> \<le> 1 / 2"
    by (rule py_round_near)
  moreover have "\<bar>float_interpolation e c - interpolation e c\<bar> \<le> 1 / 2 ^ 28"
    using eok assms(4) by (rule float_interpolation_error)
  moreover have "calculate_aqi (Some c) T = Inr (Some n)"
    if "\<bar>interpolation e c - of_int n\<bar> < 1 / 2 - 1 / 2 ^ 28" for n
    using ok assms(2,4) that by (rule calculate_aqi_value)
  moreover have "calculate_aqi (Some (of_int (concentration_low e))) T = Inr (Some (index_low e))"
    using ok assms(2) by (rule calculate_aqi_low)
  moreover have "calculate_aqi (Some (of_int (concentration_high e))) T = Inr (Some (index_high e))"
    using ok assms(2) by (rule calculate_aqi_high)
  moreover note no2_53 no2_54
  ultimately show ?thesis by blast
qed

theorem calculate_aqi_interpolates_witness:
  "NO2_BREAKPOINTS \<in> set pollutant_tables \<and> (54, 100, 51, 100) \<in> set NO2_BREAKPOINTS
   \<and> (0::real) \<le> 60 \<and> in_range 60 (54, 100, 51, 100)
   \<and> interpolation (54, 100, 51, 100) 60 = 1320 / 23
   \<and> \<bar>1320 / 23 - of_int 57\<bar> < (1 / 2 - 1 / 2 ^ 28 :: real)
   \<and> calculate_aqi (Some 60) NO2_BREAKPOINTS = Inr (Some 57)"
proof -
  have h1: "NO2_BREAKPOINTS \<in> set pollutant_tables" by (simp add: pollutant_tables_def)
  have h2: "(54, 100, 51, 100) \<in> set NO2_BREAKPOINTS" by (simp add: NO2_BREAKPOINTS_def)
  have h3: "(0::real) \<le> 60" by simp
  have h4: "in_range 60 (54, 100, 51, 100)"
    by (simp add: in_range_def concentration_low_def concentration_high_def)
  have v: "interpolation (54, 100, 51, 100) 60 = 1320 / 23"
    by (simp add: interpolation_def concentration_low_def concentration_high_def
        index_low_def index_high_def)
  have d: "\<bar>1320 / 23 - of_int 57\<bar> < (1 / 2 - 1 / 2 ^ 28 :: real)" by simp
  from calculate_aqi_interpolates [OF h1 h2 h3 h4]
  have "\<forall>n. \<bar>interpolation (54, 100, 51, 100) 60 - of_int n\<bar> < 1 / 2 - 1 / 2 ^ 28
      \<longrightarrow> calculate_aqi (Some 60) NO2_BREAKPOINTS = Inr (Some n)" by blast
  then have "\<bar>interpolation (54, 100, 51, 100) 60 - of_int 57\<bar> < 1 / 2 - 1 / 2 ^ 28
      \<longrightarrow> calculate_aqi (Some 60) NO2_BREAKPOINTS = Inr (Some 57)" by (rule spec)
  with d have r: "calculate_aqi (Some 60) NO2_BREAKPOINTS = Inr (Some 57)"
    unfolding v by blast
  from h1 h2 h3 h4 v d r show ?thesis by blast
qed

text \<open>
  C1 as stated fails: the result is not always the nearest integer to the exact value
  of the formula. The double nearest to 0.1 is slightly above 0.1; for HCHO at that
  concentration the exact value of the formula is slightly above one half, whose
  nearest integer is 1, but the product rounds to exactly one half in binary64 and
  the tie goes to 0.
\<close>

theorem calculate_aqi_exact_counterexample:
  "HCHO_BREAKPOINTS \<in> set pollutant_tables \<and> (0, 10, 0, 50) \<in> set HCHO_BREAKPOINTS
   \<and> (0::real) \<le> 3602879701896397 / 36028797018963968
   \<and> in_range (3602879701896397 / 36028797018963968) (0, 10, 0, 50)
   \<and> calculate_aqi (Some (3602879701896397 / 36028797018963968)) HCHO_BREAKPOINTS
        = Inr (Some 0)
   \<and> py_round (interpolation (0, 10, 0, 50) (3602879701896397 / 36028797018963968)) = 1
   \<and> \<bar>interpolation (0, 10, 0, 50) (3602879701896397 / 36028797018963968) - of_int 1\<bar>
        < \<bar>interpolation (0, 10, 0, 50) (3602879701896397 / 36028797018963968) - of_int 0\<bar>"
proof -
  have i: "interpolation (0, 10, 0, 50) (3602879701896397 / 36028797018963968)
      = 18014398509481985 / 36028797018963968"
    by (simp add: interpolation_def concentration_low_def concentration_high_def
        index_low_def index_high_def)
  have r: "py_round (18014398509481985 / 36028797018963968) = 1"
    by (simp add: py_round_def Let_def)
  have h1: "HCHO_BREAKPOINTS \<in> set pollutant_tables" by (simp add: pollutant_tables_def)
  have h2: "(0, 10, 0, 50) \<in> set HCHO_BREAKPOINTS" by (simp add: HCHO_BREAKPOINTS_def)
  have h3: "(0::real) \<le> 3602879701896397 / 36028797018963968" by simp
  have h4: "in_range (3602879701896397 / 36028797018963968) (0, 10, 0, 50)"
    by (simp add: in_range_def concentration_low_def concentration_high_def)
  have v: "py_round (interpolation (0, 10, 0, 50) (3602879701896397 / 36028797018963968)) = 1"
    by (simp only: i r)
  have d: "\<bar>interpolation (0, 10, 0, 50) (3602879701896397 / 36028797018963968) - of_int 1\<bar>
        < \<bar>interpolation (0, 10, 0, 50) (3602879701896397 / 36028797018963968) - of_int 0\<bar>"
    unfolding i by simp
  from h1 h2 h3 h4 hcho_tenth v d show ?thesis by blast
qed

subsection \<open>Saturation above the table\<close>

text \<open>
  C4. For every table \<open>T\<close> of the three and every concentration strictly greater than
  the upper bound of the last entry of \<open>T\<close>, \<open>calculate_aqi\<close> returns exactly the
  \<open>index_high\<close> of that last entry. For NO2 every concentration above 2049 ppb,
  5000 ppb included, gives 500.
\<close>

theorem calculate_aqi_saturates:
  assumes "T \<in> set pollutant_tables" "of_int (concentration_high (last T)) < c"
  shows "calculate_aqi (Some c) T = Inr (Some (index_high (last T)))
    \<and> (\<forall>x. 2049 < x \<longrightarrow> calculate_aqi (Some x) NO2_BREAKPOINTS = Inr (Some 500))
    \<and> calculate_aqi (Some 5000) NO2_BREAKPOINTS = Inr (Some 500)"
proof -
  have sat: "calculate_aqi (Some x) U = Inr (Some (index_high (last U)))"
    if U: "U \<in> set pollutant_tables" and x: "of_int (concentration_high (last U)) < x" for U x
  proof -
    from U have ok: "table_ok U" by (rule tables_ok)
    then have "entry_ok (last U)" by (simp add: table_ok_def list_all_iff)
    then have "(0::real) \<le> of_int (concentration_high (last U))" by (simp add: entry_ok_def)
    with x have "0 \<le> x" by simp
    moreover from ok x have "\<not> in_some_range x U" by (rule above_no_entry)
    moreover from ok have "U \<noteq> []" by (simp add: table_ok_def)
    ultimately show ?thesis by (simp add: calculate_aqi_no_entry)
  qed
  have no2: "NO2_BREAKPOINTS \<in> set pollutant_tables" by (simp add: pollutant_tables_def)
  have top: "concentration_high (last NO2_BREAKPOINTS) = 2049" "index_high (last NO2_BREAKPOINTS) = 500"
    by (simp_all add: NO2_BREAKPOINTS_def concentration_high_def index_high_def)
  have "calculate_aqi (Some x) NO2_BREAKPOINTS = Inr (Some 500)" if "2049 < x" for x
    using sat [OF no2, of x] that by (simp add: top)
  then show ?thesis using sat [OF assms] by simp
qed

theorem calculate_aqi_saturates_witness:
  "O3_BREAKPOINTS \<in> set pollutant_tables
   \<and> (of_int (concentration_high (last O3_BREAKPOINTS)) :: real) < 201
   \<and> calculate_aqi (Some 201) O3_BREAKPOINTS = Inr (Some 300)
   \<and> (2049::real) < 2050 \<and> calculate_aqi (Some 2050) NO2_BREAKPOINTS = Inr (Some 500)"
proof -
  have h1: "O3_BREAKPOINTS \<in> set pollutant_tables" by (simp add: pollutant_tables_def)
  have h2: "(of_int (concentration_high (last O3_BREAKPOINTS)) :: real) < 201"
    by (simp add: O3_BREAKPOINTS_def concentration_high_def)
  have i: "index_high (last O3_BREAKPOINTS) = 300"
    by (simp add: O3_BREAKPOINTS_def index_high_def)
  from calculate_aqi_saturates [OF h1 h2] i h1 h2 show ?thesis by simp
qed

subsection \<open>Concentrations between two entries\<close>

text \<open>
  C9. For every table \<open>T\<close> of the three and every concentration strictly between the
  upper bound of an entry and the lower bound of the next one, no entry matches and
  \<open>calculate_aqi\<close> returns the \<open>index_high\<close> of the last entry of \<open>T\<close>: a number, not
  the missing value, and greater than the \<open>index_low\<close> of the entry above the gap, so
  not a value between the indices of the two neighbours. Every NO2 concentration
  strictly between 53 and 54 ppb gives 500.
\<close>

theorem calculate_aqi_gap:
  assumes "T \<in> set pollutant_tables" "Suc i < length T"
    "of_int (concentration_high (T ! i)) < c" "c < of_int (concentration_low (T ! Suc i))"
  shows "calculate_aqi (Some c) T = Inr (Some (index_high (last T)))
    \<and> index_low (T ! Suc i) < index_high (last T)
    \<and> (\<forall>x. 53 < x \<and> x < 54 \<longrightarrow> calculate_aqi (Some x) NO2_BREAKPOINTS = Inr (Some 500))"
proof -
  have gap: "calculate_aqi (Some x) U = Inr (Some (index_high (last U)))
      \<and> index_low (U ! Suc j) < index_high (last U)"
    if U: "U \<in> set pollutant_tables" and j: "Suc j < length U"
      and lo: "of_int (concentration_high (U ! j)) < x"
      and hi: "x < of_int (concentration_low (U ! Suc j))" for U j x
  proof -
    from U have ok: "table_ok U" by (rule tables_ok)
    then have all: "list_all entry_ok U" and s: "sorted_wrt entry_before U" and ne: "U \<noteq> []"
      by (simp_all add: table_ok_def)
    from all j have "entry_ok (U ! j)" by (simp add: list_all_iff)
    then have "(0::real) \<le> of_int (concentration_high (U ! j))" by (simp add: entry_ok_def)
    with lo have "0 \<le> x" by simp
    moreover from ok j lo hi have "\<not> in_some_range x U" by (rule gap_no_entry)
    ultimately have r: "calculate_aqi (Some x) U = Inr (Some (index_high (last U)))"
      using ne by (simp add: calculate_aqi_no_entry)
    from j have m: "U ! Suc j \<in> set U" by simp
    with all have "index_low (U ! Suc j) < index_high (U ! Suc j)"
      by (simp add: list_all_iff entry_ok_def)
    moreover from all s m have "index_high (U ! Suc j) \<le> index_high (last U)"
      by (rule last_index_max)
    ultimately show ?thesis using r by simp
  qed
  have no2: "NO2_BREAKPOINTS \<in> set pollutant_tables" by (simp add: pollutant_tables_def)
  have "calculate_aqi (Some x) NO2_BREAKPOINTS = Inr (Some 500)" if "53 < x \<and> x < 54" for x
    using gap [OF no2, of 0 x] that
    by (simp add: NO2_BREAKPOINTS_def concentration_high_def concentration_low_def index_high_def)
  then show ?thesis using gap [OF assms] by simp
qed

theorem calculate_aqi_gap_witness:
  "HCHO_BREAKPOINTS \<in> set pollutant_tables \<and> Suc 1 < length HCHO_BREAKPOINTS
   \<and> (of_int (concentration_high (HCHO_BREAKPOINTS ! 1)) :: real) < 61 / 2
   \<and> (61 / 2 :: real) < of_int (concentration_low (HCHO_BREAKPOINTS ! Suc 1))
   \<and> calculate_aqi (Some (61 / 2)) HCHO_BREAKPOINTS = Inr (Some 300)
   \<and> (53::real) < 107 / 2 \<and> (107 / 2 :: real) < 54
   \<and> calculate_aqi (Some (107 / 2)) NO2_BREAKPOINTS = Inr (Some 500)"
proof -
  have h1: "HCHO_BREAKPOINTS \<in> set pollutant_tables" by (simp add: pollutant_tables_def)
  have h2: "Suc 1 < length HCHO_BREAKPOINTS" by (simp add: HCHO_BREAKPOINTS_def)
  have h3: "(of_int (concentration_high (HCHO_BREAKPOINTS ! 1)) :: real) < 61 / 2"
    by (simp add: HCHO_BREAKPOINTS_def concentration_high_def)
  have h4: "(61 / 2 :: real) < of_int (concentration_low (HCHO_BREAKPOINTS ! Suc 1))"
    by (simp add: HCHO_BREAKPOINTS_def concentration_low_def)
  have i: "index_high (last HCHO_BREAKPOINTS) = 300"
    by (simp add: HCHO_BREAKPOINTS_def index_high_def)
  from calculate_aqi_gap [OF h1 h2 h3 h4] i h1 h2 h3 h4 show ?thesis by simp
qed

subsection \<open>Monotonicity inside an entry\<close>

text \<open>
  C7, as amended. For every table \<open>T\<close> of the three, every entry \<open>e\<close> of \<open>T\<close> and all
  concentrations \<open>c1 < c2\<close> strictly inside the range of \<open>e\<close>, both calls return a
  number and the sub-index of \<open>c1\<close> is at most the sub-index of \<open>c2\<close>. Each sub-index is
  within \<open>1/2 + 2^-28\<close> of the interpolation, which is linear in the concentration with
  the positive slope of the entry; the sub-index itself, an integer, is not linear.
\<close>

theorem calculate_aqi_monotone:
  assumes "T \<in> set pollutant_tables" "e \<in> set T"
    "of_int (concentration_low e) < c1" "c1 < c2" "c2 < of_int (concentration_high e)"
  shows "\<exists>r1 r2. calculate_aqi (Some c1) T = Inr (Some r1)
      \<and> calculate_aqi (Some c2) T = Inr (Some r2)
      \<and> r1 \<le> r2
      \<and> \<bar>of_int r1 - interpolation e c1\<bar> \<le> 1 / 2 + 1 / 2 ^ 28
      \<and> \<bar>of_int r2 - interpolation e c2\<bar> \<le> 1 / 2 + 1 / 2 ^ 28
      \<and> interpolation e c2 - interpolation e c1 = slope e * (c2 - c1)
      \<and> 0 < slope e"
proof -
  from assms(1) have ok: "table_ok T" by (rule tables_ok)
  with assms(2) have eok: "entry_ok e" and sm: "entry_small e"
    by (simp_all add: table_ok_def list_all_iff)
  from assms(3-5) have in1: "in_range c1 e" and in2: "in_range c2 e"
    by (simp_all add: in_range_def)
  let ?r1 = "py_round (float_interpolation e c1)" and ?r2 = "py_round (float_interpolation e c2)"
  have r1: "calculate_aqi (Some c1) T = Inr (Some ?r1)"
    using ok assms(2) in1 by (rule calculate_aqi_in_entry)
  have r2: "calculate_aqi (Some c2) T = Inr (Some ?r2)"
    using ok assms(2) in2 by (rule calculate_aqi_in_entry)
  from assms(4) have "c1 \<le> c2" by simp
  with eok sm in1 in2 have "float_interpolation e c1 \<le> float_interpolation e c2"
    by (rule float_interpolation_mono)
  then have le: "?r1 \<le> ?r2" by (rule py_round_mono)
  have n1: "\<bar>float_interpolation e c1 - of_int ?r1\<bar> \<le> 1 / 2" by (rule py_round_near)
  have n2: "\<bar>float_interpolation e c2 - of_int ?r2\<bar> \<le> 1 / 2" by (rule py_round_near)
  have e1: "\<bar>float_interpolation e c1 - interpolation e c1\<bar> \<le> 1 / 2 ^ 28"
    using eok sm in1 by (rule float_interpolation_error)
  have e2: "\<bar>float_interpolation e c2 - interpolation e c2\<bar> \<le> 1 / 2 ^ 28"
    using eok sm in2 by (rule float_interpolation_error)
  from n1 e1 have d1: "\<bar>of_int ?r1 - interpolation e c1\<bar> \<le> 1 / 2 + 1 / 2 ^ 28" by linarith
  from n2 e2 have d2: "\<bar>of_int ?r2 - interpolation e c2\<bar> \<le> 1 / 2 + 1 / 2 ^ 28" by linarith
  have lin: "interpolation e c2 - interpolation e c1 = slope e * (c2 - c1)"
    by (simp add: interpolation_slope algebra_simps)
  from eok have pos: "0 < slope e" by (rule slope_pos)
  from r1 r2 le d1 d2 lin pos show ?thesis by blast
qed

theorem calculate_aqi_monotone_witness:
  "O3_BREAKPOINTS \<in> set pollutant_tables \<and> (55, 70, 51, 100) \<in> set O3_BREAKPOINTS
   \<and> (of_int (concentration_low (55, 70, 51, 100)) :: real) < 56 \<and> (56::real) < 57
   \<and> (57::real) < of_int (concentration_high (55, 70, 51, 100))
   \<and> calculate_aqi (Some 56) O3_BREAKPOINTS = Inr (Some 54)
   \<and> calculate_aqi (Some 57) O3_BREAKPOINTS = Inr (Some 58)
   \<and> (54::int) \<le> 58"
proof -
  have h1: "O3_BREAKPOINTS \<in> set pollutant_tables" by (simp add: pollutant_tables_def)
  have h2: "(55, 70, 51, 100) \<in> set O3_BREAKPOINTS" by (simp add: O3_BREAKPOINTS_def)
  have h3: "(of_int (concentration_low (55, 70, 51, 100)) :: real) < 56"
    by (simp add: concentration_low_def)
  have h4: "(56::real) < 57" by simp
  have h5: "(57::real) < of_int (concentration_high (55, 70, 51, 100))"
    by (simp add: concentration_high_def)
  from calculate_aqi_monotone [OF h1 h2 h3 h4 h5] obtain r1 r2 where
    "calculate_aqi (Some 56) O3_BREAKPOINTS = Inr (Some r1)"
    "calculate_aqi (Some 57) O3_BREAKPOINTS = Inr (Some r2)" "r1 \<le> r2" by blast
  with o3_56 o3_57 h1 h2 h3 h4 h5 show ?thesis by simp
qed

text \<open>
  C7 as stated fails in its first half: \<open>calculate_aqi\<close> is not linear in the
  concentration. The O3 concentrations 56, 57 and 58 ppb are equally spaced and
  strictly inside the entry from 55 to 70, and their sub-indices 54, 58 and 61 are not
  equally spaced.
\<close>

theorem calculate_aqi_linear_counterexample:
  "(55, 70, 51, 100) \<in> set O3_BREAKPOINTS
   \<and> (of_int (concentration_low (55, 70, 51, 100)) :: real) < 56
   \<and> (58::real) < of_int (concentration_high (55, 70, 51, 100))
   \<and> calculate_aqi (Some 56) O3_BREAKPOINTS = Inr (Some 54)
   \<and> calculate_aqi (Some 57) O3_BREAKPOINTS = Inr (Some 58)
   \<and> calculate_aqi (Some 58) O3_BREAKPOINTS = Inr (Some 61)
   \<and> (57 - 56 :: real) = 58 - 57 \<and> (58 - 54 :: int) \<noteq> 61 - 58"
proof -
  have h: "(55, 70, 51, 100) \<in> set O3_BREAKPOINTS" by (simp add: O3_BREAKPOINTS_def)
  have b: "(of_int (concentration_low (55, 70, 51, 100)) :: real) < 56"
    "(58::real) < of_int (concentration_high (55, 70, 51, 100))"
    by (simp_all add: concentration_low_def concentration_high_def)
  have n: "(57 - 56 :: real) = 58 - 57" "(58 - 54 :: int) \<noteq> 61 - 58" by simp_all
  from h b o3_56 o3_57 o3_58 n show ?thesis by blast
qed

subsection \<open>The invariant of the tables\<close>

text \<open>
  C5, as amended. Each of the three tables is sorted ascending with every entry ending
  below the start of every later one, so no concentration lies in two entries, and the
  indices do not decrease from one entry to the next; the entries are contiguous on the
  integers (the first starts at 0, each next one starts one above the end of its
  predecessor), so every integer concentration from 0 up to the upper bound of the last
  entry falls inside the range of an entry.
\<close>

theorem tables_invariant:
  assumes "T \<in> set pollutant_tables"
  shows "sorted_wrt entry_before T \<and> list_all entry_ok T
    \<and> (\<forall>c e e'. e \<in> set T \<and> e' \<in> set T \<and> in_range c e \<and> in_range c e' \<longrightarrow> e = e')
    \<and> contiguous_int T
    \<and> (\<forall>n::int. 0 \<le> n \<and> n \<le> concentration_high (last T) \<longrightarrow> in_some_range (of_int n) T)"
proof -
  from assms have ok: "table_ok T" by (rule tables_ok)
  then have s: "sorted_wrt entry_before T" and a: "list_all entry_ok T"
    by (simp_all add: table_ok_def)
  from assms have c: "contiguous_int T" by (rule tables_contiguous)
  have d: "\<forall>c e e'. e \<in> set T \<and> e' \<in> set T \<and> in_range c e \<and> in_range c e' \<longrightarrow> e = e'"
    using ordered_disjoint [OF a s] by blast
  have "in_some_range (of_int n) T" if "0 \<le> n \<and> n \<le> concentration_high (last T)" for n
    using c that by (simp add: contiguous_int_def contiguous_cover_aux)
  with s a c d show ?thesis by blast
qed

theorem tables_invariant_witness:
  "NO2_BREAKPOINTS \<in> set pollutant_tables
   \<and> (0::int) \<le> 54 \<and> 54 \<le> concentration_high (last NO2_BREAKPOINTS)
   \<and> (54, 100, 51, 100) \<in> set NO2_BREAKPOINTS \<and> in_range 54 (54, 100, 51, 100)
   \<and> contiguous_int NO2_BREAKPOINTS \<and> in_some_range 54 NO2_BREAKPOINTS"
proof -
  have h1: "NO2_BREAKPOINTS \<in> set pollutant_tables" by (simp add: pollutant_tables_def)
  have h2: "(0::int) \<le> 54 \<and> 54 \<le> concentration_high (last NO2_BREAKPOINTS)"
    by (simp add: NO2_BREAKPOINTS_def concentration_high_def)
  have h3: "(54, 100, 51, 100) \<in> set NO2_BREAKPOINTS \<and> in_range 54 (54, 100, 51, 100)"
    by (simp add: NO2_BREAKPOINTS_def in_range_def concentration_low_def concentration_high_def)
  from tables_invariant [OF h1] h2 have "in_some_range (of_int 54) NO2_BREAKPOINTS" by blast
  with tables_invariant [OF h1] h1 h2 h3 show ?thesis by simp
qed

text \<open>
  C5 as stated fails: the tables do not cover every real concentration from 0 up to
  the last upper bound. The NO2 concentration 53.5 ppb lies between the first entry,
  which ends at 53, and the second, which starts at 54, and is in no entry's range.
\<close>

theorem tables_cover_reals_counterexample:
  "(0::real) \<le> 107 / 2
   \<and> (107 / 2 :: real) \<le> of_int (concentration_high (last NO2_BREAKPOINTS))
   \<and> \<not> in_some_range (107 / 2) NO2_BREAKPOINTS
   \<and> \<not> covers_reals NO2_BREAKPOINTS"
proof -
  have a: "(107 / 2 :: real) \<le> of_int (concentration_high (last NO2_BREAKPOINTS))"
    by (simp add: NO2_BREAKPOINTS_def concentration_high_def)
  have b: "\<not> in_some_range (107 / 2) NO2_BREAKPOINTS"
    by (simp add: in_some_range_def in_range_def NO2_BREAKPOINTS_def concentration_low_def
        concentration_high_def)
  have "\<not> covers_reals NO2_BREAKPOINTS"
  proof
    assume "covers_reals NO2_BREAKPOINTS"
    with a have "in_some_range (107 / 2) NO2_BREAKPOINTS" by (simp add: covers_reals_def)
    with b show False by simp
  qed
  with a b show ?thesis by simp
qed

subsection \<open>The overall index is the maximum\<close>

text \<open>
  C2. For every input triple the three per-pollutant calls return (none raises), and:
  if all three sub-indices are missing, \<open>get_combined_aqi\<close> returns (missing, none);
  otherwise it returns a non-negative integer \<open>m\<close> and a pollutant name \<open>d\<close> such
  that \<open>m\<close> is the valid sub-index of \<open>d\<close> and no valid sub-index is greater than
  \<open>m\<close>.
\<close>

theorem get_combined_aqi_max:
  "\<exists>a b c. get_no2_aqi n = Inr a \<and> get_hcho_aqi h = Inr b \<and> get_o3_aqi ozone = Inr c
     \<and> (if a = None \<and> b = None \<and> c = None
         then get_combined_aqi n h ozone = Inr (None, None)
         else \<exists>m d. get_combined_aqi n h ozone = Inr (Some m, Some d)
                \<and> 0 \<le> m
                \<and> (d, Some m) \<in> {(''NO2'', a), (''HCHO'', b), (''O3'', c)}
                \<and> (\<forall>v. Some v \<in> {a, b, c} \<longrightarrow> v \<le> m))"
proof -
  from sub_indices [of n h ozone] obtain a b c where
    s: "get_no2_aqi n = Inr a" "get_hcho_aqi h = Inr b" "get_o3_aqi ozone = Inr c"
    and nn: "\<forall>v. a = Some v \<longrightarrow> 0 \<le> v" "\<forall>v. b = Some v \<longrightarrow> 0 \<le> v"
      "\<forall>v. c = Some v \<longrightarrow> 0 \<le> v"
    by blast
  have "if a = None \<and> b = None \<and> c = None
         then get_combined_aqi n h ozone = Inr (None, None)
         else \<exists>m d. get_combined_aqi n h ozone = Inr (Some m, Some d)
                \<and> 0 \<le> m
                \<and> (d, Some m) \<in> {(''NO2'', a), (''HCHO'', b), (''O3'', c)}
                \<and> (\<forall>v. Some v \<in> {a, b, c} \<longrightarrow> v \<le> m)"
    using nn unfolding combined_eval [OF s]
    by (cases a; cases b; cases c) (auto simp: at_least_def)
  with s show ?thesis by blast
qed

theorem get_combined_aqi_max_witness:
  "get_no2_aqi (Some 120000000000000000) = Inr (Some 57)
   \<and> get_hcho_aqi None = Inr None
   \<and> get_o3_aqi (Some 70) = Inr (Some 100)
   \<and> \<not> (Some (57::int) = None \<and> (None :: int option) = None \<and> Some (100::int) = None)
   \<and> get_combined_aqi (Some 120000000000000000) None (Some 70) = Inr (Some 100, Some ''O3'')
   \<and> get_combined_aqi None None None = Inr (None, None)"
proof -
  have a: "get_no2_aqi (Some 120000000000000000) = Inr (Some 57)" by (rule sub_index_values)
  have b: "get_hcho_aqi None = Inr None" by (rule missing_sub_index)
  have c: "get_o3_aqi (Some 70) = Inr (Some 100)" by (rule sub_index_values)
  have a0: "get_no2_aqi None = Inr None" by (rule missing_sub_index)
  have c0: "get_o3_aqi None = Inr None" by (rule missing_sub_index)
  from get_combined_aqi_max [of "Some 120000000000000000" None "Some 70"] a b c
  have 1: "get_combined_aqi (Some 120000000000000000) None (Some 70) = Inr (Some 100, Some ''O3'')"
    by auto
  from get_combined_aqi_max [of None None None] a0 b c0
  have 2: "get_combined_aqi None None None = Inr (None, None)"
    by auto
  from a b c 1 2 show ?thesis by simp
qed

subsection \<open>Missing and negative concentrations\<close>

text \<open>
  C6, as amended. For every table, \<open>calculate_aqi\<close> returns the missing value, and does
  not raise, on a missing and on a negative concentration. In \<open>get_combined_aqi\<close> a
  pollutant whose concentration in ppb is negative (the O3 input itself, the NO2 or
  HCHO column after its conversion) has exactly the effect of a missing one, and that
  pollutant is not the dominant one: it is left out of the aggregation. Every column
  of -1 molecule per square centimetre or below converts to a negative concentration
  and so has the effect of a missing column.
\<close>

theorem negative_like_missing:
  assumes "x < 0"
  shows "calculate_aqi None T = Inr None \<and> calculate_aqi (Some x) T = Inr None
    \<and> (no2_column_to_ppb n = Some x \<longrightarrow>
          get_combined_aqi n h ozone = get_combined_aqi None h ozone
          \<and> (\<exists>m d. get_combined_aqi n h ozone = Inr (m, d) \<and> d \<noteq> Some ''NO2''))
    \<and> (hcho_column_to_ppb h = Some x \<longrightarrow>
          get_combined_aqi n h ozone = get_combined_aqi n None ozone
          \<and> (\<exists>m d. get_combined_aqi n h ozone = Inr (m, d) \<and> d \<noteq> Some ''HCHO''))
    \<and> get_combined_aqi n h (Some x) = get_combined_aqi n h None
    \<and> (\<exists>m d. get_combined_aqi n h (Some x) = Inr (m, d) \<and> d \<noteq> Some ''O3'')
    \<and> (\<forall>col. col \<le> - 1 \<longrightarrow>
          get_combined_aqi (Some col) h ozone = get_combined_aqi None h ozone
          \<and> get_combined_aqi n (Some col) ozone = get_combined_aqi n None ozone)"
proof -
  have c: "calculate_aqi None T = Inr None \<and> calculate_aqi (Some x) T = Inr None"
    using assms by (simp add: calculate_aqi_def)
  from sub_indices [of n h ozone] obtain a b c where
    s: "get_no2_aqi n = Inr a" "get_hcho_aqi h = Inr b" "get_o3_aqi ozone = Inr c"
    by blast
  have no2: "get_combined_aqi k h ozone = get_combined_aqi None h ozone
      \<and> (\<exists>m d. get_combined_aqi k h ozone = Inr (m, d) \<and> d \<noteq> Some ''NO2'')"
    if "no2_column_to_ppb k = Some y" "y < 0" for k y
  proof -
    from that have g: "get_no2_aqi k = Inr None" by (simp add: get_no2_aqi_def calculate_aqi_def)
    have "get_combined_aqi k h ozone = get_combined_aqi None h ozone"
      by (simp add: get_combined_aqi_def g missing_sub_index)
    moreover have "\<exists>m d. get_combined_aqi k h ozone = Inr (m, d) \<and> d \<noteq> Some ''NO2''"
      unfolding combined_eval [OF g s(2) s(3)] by (simp add: at_least_def)
    ultimately show ?thesis by simp
  qed
  have hcho: "get_combined_aqi n k ozone = get_combined_aqi n None ozone
      \<and> (\<exists>m d. get_combined_aqi n k ozone = Inr (m, d) \<and> d \<noteq> Some ''HCHO'')"
    if "hcho_column_to_ppb k = Some y" "y < 0" for k y
  proof -
    from that have g: "get_hcho_aqi k = Inr None" by (simp add: get_hcho_aqi_def calculate_aqi_def)
    have "get_combined_aqi n k ozone = get_combined_aqi n None ozone"
      by (simp add: get_combined_aqi_def g missing_sub_index)
    moreover have "\<exists>m d. get_combined_aqi n k ozone = Inr (m, d) \<and> d \<noteq> Some ''HCHO''"
      unfolding combined_eval [OF s(1) g s(3)] by (simp add: at_least_def)
    ultimately show ?thesis by simp
  qed
  have g3: "get_o3_aqi (Some x) = Inr None"
    using assms by (simp add: get_o3_aqi_def calculate_aqi_def)
  have e3: "get_combined_aqi n h (Some x) = get_combined_aqi n h None"
    by (simp add: get_combined_aqi_def g3 missing_sub_index)
  have x3: "\<exists>m d. get_combined_aqi n h (Some x) = Inr (m, d) \<and> d \<noteq> Some ''O3''"
    unfolding combined_eval [OF s(1) s(2) g3] by (simp add: at_least_def)
  have col: "get_combined_aqi (Some col) h ozone = get_combined_aqi None h ozone
      \<and> get_combined_aqi n (Some col) ozone = get_combined_aqi n None ozone"
    if "col \<le> - 1" for col
  proof -
    from that obtain y where "y < 0" "no2_column_to_ppb (Some col) = Some y"
      using no2_ppb_negative by blast
    moreover from that obtain z where "z < 0" "hcho_column_to_ppb (Some col) = Some z"
      using hcho_ppb_negative by blast
    ultimately show ?thesis using no2 hcho by blast
  qed
  from c no2 [of n x] hcho [of h x] assms e3 x3 col show ?thesis by blast
qed

theorem negative_like_missing_witness:
  "(- 5 :: real) < 0 \<and> calculate_aqi (Some (- 5)) NO2_BREAKPOINTS = Inr None
   \<and> no2_column_to_ppb (Some (- 10000000000000000)) = Some (- 5)
   \<and> get_combined_aqi (Some (- 10000000000000000)) (Some 300000000000000000) (Some 30)
       = Inr (Some 100, Some ''HCHO'')
   \<and> hcho_column_to_ppb (Some (- 50000000000000000)) = Some (- 5)
   \<and> get_combined_aqi (Some 120000000000000000) (Some (- 50000000000000000)) (Some 30)
       = Inr (Some 57, Some ''NO2'')
   \<and> get_combined_aqi (Some 120000000000000000) (Some 300000000000000000) (Some (- 5))
       = Inr (Some 100, Some ''HCHO'')
   \<and> (- 10000000000000000 :: real) \<le> - 1"
proof -
  have h: "(- 5 :: real) < 0" by simp
  have p: "no2_column_to_ppb (Some (- 10000000000000000)) = Some (- 5)"
    by (rule no2_column_values)
  have q: "hcho_column_to_ppb (Some (- 50000000000000000)) = Some (- 5)"
    by (rule hcho_column_values)
  have v1: "get_combined_aqi None (Some 300000000000000000) (Some 30)
      = Inr (Some 100, Some ''HCHO'')"
    by (simp add: get_combined_aqi_def bind_err_def py_max_def sub_index_values
        missing_sub_index)
  have v2: "get_combined_aqi (Some 120000000000000000) None (Some 30)
      = Inr (Some 57, Some ''NO2'')"
    by (simp add: get_combined_aqi_def bind_err_def py_max_def sub_index_values
        missing_sub_index)
  have v3: "get_combined_aqi (Some 120000000000000000) (Some 300000000000000000) None
      = Inr (Some 100, Some ''HCHO'')"
    by (simp add: get_combined_aqi_def bind_err_def py_max_def sub_index_values
        missing_sub_index)
  from negative_like_missing [OF h, where T = NO2_BREAKPOINTS
      and n = "Some (- 10000000000000000)" and h = "Some 300000000000000000"
      and ozone = "Some 30"] p v1
  have 1: "calculate_aqi (Some (- 5)) NO2_BREAKPOINTS = Inr None"
    and 2: "get_combined_aqi (Some (- 10000000000000000)) (Some 300000000000000000) (Some 30)
       = Inr (Some 100, Some ''HCHO'')" by simp_all
  from negative_like_missing [OF h, where n = "Some 120000000000000000"
      and h = "Some (- 50000000000000000)" and ozone = "Some 30"] q v2
  have 3: "get_combined_aqi (Some 120000000000000000) (Some (- 50000000000000000)) (Some 30)
       = Inr (Some 57, Some ''NO2'')" by simp
  from negative_like_missing [OF h, where n = "Some 120000000000000000"
      and h = "Some 300000000000000000"] v3
  have 4: "get_combined_aqi (Some 120000000000000000) (Some 300000000000000000) (Some (- 5))
       = Inr (Some 100, Some ''HCHO'')" by simp
  from h p q 1 2 3 4 show ?thesis by simp
qed

text \<open>
  C6 as stated fails when the negative concentration is taken to be the input of
  \<open>get_combined_aqi\<close>: the NO2 column \<open>-2^-1074\<close>, the negative double nearest to zero,
  is negative, but its quotient by \<open>2e15\<close> rounds to zero, which is not negative: NO2
  gets the sub-index 0 and is the dominant pollutant, where a missing column gives
  (missing, none).
\<close>

theorem negative_column_counterexample:
  "(- (1 / 2 ^ 1074) :: real) < 0
   \<and> get_combined_aqi (Some (- (1 / 2 ^ 1074))) None None = Inr (Some 0, Some ''NO2'')
   \<and> get_combined_aqi None None None = Inr (None, None)"
proof -
  have z: "calculate_aqi (Some 0) NO2_BREAKPOINTS = Inr (Some 0)"
    using calculate_aqi_low [OF table_ok_NO2, of "(0, 53, 0, 50)"]
    by (simp add: NO2_BREAKPOINTS_def concentration_low_def index_low_def)
  have a: "get_no2_aqi (Some (- (1 / 2 ^ 1074))) = Inr (Some 0)"
    by (simp only: get_no2_aqi_def no2_underflow z)
  have 1: "get_combined_aqi (Some (- (1 / 2 ^ 1074))) None None = Inr (Some 0, Some ''NO2'')"
    unfolding combined_eval [OF a missing_sub_index(2) missing_sub_index(3)]
    by (simp add: at_least_def)
  have 2: "get_combined_aqi None None None = Inr (None, None)"
    by (simp add: get_combined_aqi_def missing_sub_index bind_err_def)
  have 3: "(- (1 / 2 ^ 1074) :: real) < 0" by simp
  from 1 2 3 show ?thesis by blast
qed

subsection \<open>The dominant pollutant among equal maxima\<close>

text \<open>
  C10. The result of \<open>get_combined_aqi\<close> is this function of the three sub-indices:
  NO2 is dominant whenever its sub-index is valid and neither other valid sub-index is
  greater (so it wins every tie it is part of); otherwise HCHO is dominant whenever its
  sub-index is valid and that of O3 is missing or not greater; otherwise O3 is dominant
  when its sub-index is valid; otherwise the result is (missing, none). The overall
  index is the sub-index of the dominant pollutant. The priority among equal maxima is
  NO2, then HCHO, then O3.
\<close>

theorem dominant_priority:
  "\<exists>a b c. get_no2_aqi n = Inr a \<and> get_hcho_aqi h = Inr b \<and> get_o3_aqi ozone = Inr c
     \<and> get_combined_aqi n h ozone =
         Inr (if at_least a b \<and> at_least a c then (a, Some ''NO2'')
              else if at_least b c then (b, Some ''HCHO'')
              else if c \<noteq> None then (c, Some ''O3'')
              else (None, None))"
proof -
  from sub_indices [of n h ozone] obtain a b c where
    s: "get_no2_aqi n = Inr a" "get_hcho_aqi h = Inr b" "get_o3_aqi ozone = Inr c"
    by blast
  from s combined_eval [OF s] show ?thesis by blast
qed

theorem dominant_priority_witness:
  "get_no2_aqi (Some 106000000000000000) = Inr (Some 50)
   \<and> get_hcho_aqi (Some 100000000000000000) = Inr (Some 50)
   \<and> get_o3_aqi (Some 54) = Inr (Some 50)
   \<and> at_least (Some 50) (Some 50)
   \<and> get_combined_aqi (Some 106000000000000000) (Some 100000000000000000) (Some 54)
       = Inr (Some 50, Some ''NO2'')"
proof -
  have a: "get_no2_aqi (Some 106000000000000000) = Inr (Some 50)" by (rule sub_index_values)
  have b: "get_hcho_aqi (Some 100000000000000000) = Inr (Some 50)" by (rule sub_index_values)
  have c: "get_o3_aqi (Some 54) = Inr (Some 50)" by (rule sub_index_values)
  have t: "at_least (Some 50) (Some 50)" by (simp add: at_least_def)
  from dominant_priority [of "Some 106000000000000000" "Some 100000000000000000" "Some 54"] a b c t
  have "get_combined_aqi (Some 106000000000000000) (Some 100000000000000000) (Some 54)
       = Inr (Some 50, Some ''NO2'')" by auto
  with a b c t show ?thesis by simp
qed

subsection \<open>Categories\<close>

text \<open>
  C3. \<open>aqi_to_category\<close> of the missing value is (missing, "Unknown", "No data
  available"). Every other value \<open>a\<close> falls in exactly one of six bands, each with its
  number, label and fixed recommendation: \<open>a \<le> 50\<close> is 0 "Good", \<open>50 < a \<le> 100\<close> is
  1 "Moderate", \<open>100 < a \<le> 150\<close> is 2 "Unhealthy for Sensitive Groups",
  \<open>150 < a \<le> 200\<close> is 3 "Unhealthy", \<open>200 < a \<le> 300\<close> is 4 "Very Unhealthy" and
  \<open>300 < a\<close> is 5 "Hazardous". In particular 50 is "Good", 51 is "Moderate" and 301 is
  "Hazardous".
\<close>

theorem aqi_to_category_thresholds:
  "aqi_to_category None = (None, ''Unknown'', ''No data available'')
   \<and> (a \<le> 50 \<longrightarrow> aqi_to_category (Some a) =
         (Some 0, ''Good'',
          ''Air quality is satisfactory, and air pollution poses little or no risk.''))
   \<and> (50 < a \<and> a \<le> 100 \<longrightarrow> aqi_to_category (Some a) =
         (Some 1, ''Moderate'',
          ''Air quality is acceptable. However, there may be a risk for some people.''))
   \<and> (100 < a \<and> a \<le> 150 \<longrightarrow> aqi_to_category (Some a) =
         (Some 2, ''Unhealthy for Sensitive Groups'',
          ''Members of sensitive groups may experience health effects.''))
   \<and> (150 < a \<and> a \<le> 200 \<longrightarrow> aqi_to_category (Some a) =
         (Some 3, ''Unhealthy'',
          ''Some members of the general public may experience health effects.''))
   \<and> (200 < a \<and> a \<le> 300 \<longrightarrow> aqi_to_category (Some a) =
         (Some 4, ''Very Unhealthy'',
          ''Health alert: The risk of health effects is increased for everyone.''))
   \<and> (300 < a \<longrightarrow> aqi_to_category (Some a) =
         (Some 5, ''Hazardous'',
          ''Health warning of emergency conditions: everyone is more likely to be affected.''))
   \<and> aqi_to_category (Some 50) =
         (Some 0, ''Good'',
          ''Air quality is satisfactory, and air pollution poses little or no risk.'')
   \<and> aqi_to_category (Some 51) =
         (Some 1, ''Moderate'',
          ''Air quality is acceptable. However, there may be a risk for some people.'')
   \<and> aqi_to_category (Some 301) =
         (Some 5, ''Hazardous'',
          ''Health warning of emergency conditions: everyone is more likely to be affected.'')"
  unfolding aqi_to_category_def by simp

theorem aqi_to_category_thresholds_witness:
  "(100::real) < 120 \<and> (120::real) \<le> 150
   \<and> aqi_to_category (Some 120) =
         (Some 2, ''Unhealthy for Sensitive Groups'',
          ''Members of sensitive groups may experience health effects.'')"
  using aqi_to_category_thresholds [of 120] by simp

subsection \<open>A worked scenario\<close>

text \<open>
  C8. An NO2 column of \<open>1.06e17\<close> molecules per square centimetre is 53 ppb and has
  sub-index 50; O3 at 70 ppb has sub-index 100; an HCHO column of \<open>3e17\<close> is 30 ppb and
  has sub-index 100. The overall index is 100; of the two pollutants that reach it,
  O3 and HCHO, the code reports HCHO. The category of 100 is 1, "Moderate".
\<close>

theorem concrete_scenario:
  "no2_column_to_ppb (Some 106000000000000000) = Some 53
   \<and> get_no2_aqi (Some 106000000000000000) = Inr (Some 50)
   \<and> get_o3_aqi (Some 70) = Inr (Some 100)
   \<and> hcho_column_to_ppb (Some 300000000000000000) = Some 30
   \<and> get_hcho_aqi (Some 300000000000000000) = Inr (Some 100)
   \<and> get_combined_aqi (Some 106000000000000000) (Some 300000000000000000) (Some 70)
       = Inr (Some 100, Some ''HCHO'')
   \<and> aqi_to_category (Some (of_int 100)) =
       (Some 1, ''Moderate'',
        ''Air quality is acceptable. However, there may be a risk for some people.'')"
proof -
  have p1: "no2_column_to_ppb (Some 106000000000000000) = Some 53" by (rule no2_column_values)
  have p2: "hcho_column_to_ppb (Some 300000000000000000) = Some 30" by (rule hcho_column_values)
  have a: "get_no2_aqi (Some 106000000000000000) = Inr (Some 50)" by (rule sub_index_values)
  have b: "get_hcho_aqi (Some 300000000000000000) = Inr (Some 100)" by (rule sub_index_values)
  have c: "get_o3_aqi (Some 70) = Inr (Some 100)" by (rule sub_index_values)
  have d: "get_combined_aqi (Some 106000000000000000) (Some 300000000000000000) (Some 70)
       = Inr (Some 100, Some ''HCHO'')"
    by (simp add: get_combined_aqi_def a b c bind_err_def py_max_def)
  have e: "aqi_to_category (Some (of_int 100)) =
       (Some 1, ''Moderate'',
        ''Air quality is acceptable. However, there may be a risk for some people.'')"
    by (simp add: aqi_to_category_def)
  from p1 p2 a b c d e show ?thesis by simp
qed

end
